theory Spec2Isabelle
  imports Main "HOL-Library.Word" "HOL-Library.Sublist"
begin

unbundle bit_operations_syntax

section \<open>Collaborator types\<close>

text \<open>
  The executor of package protofsm is generic in the event type \<open>'e\<close> and in the
  environment type \<open>'env\<close>. A state is a value of a type \<open>'s\<close>; the two methods of the
  \<open>State\<close> interface are the fields of \<open>StateOps\<close> below, applied to the state
  value. Library values the executor only carries around (public keys, wire messages,
  transactions, scripts, hashes) are byte strings.
\<close>

type_synonym bytes = "8 word list"
type_synonym uint32 = "32 word"
type_synonym PublicKey = bytes
type_synonym Message = bytes
type_synonym MsgTx = bytes
type_synonym Hash = bytes
type_synonym OutPoint = "Hash \<times> uint32"

text \<open>The notification handles returned by the chain notifier are identified by a number.\<close>

type_synonym ConfirmationEvent = nat
type_synonym SpendEvent = nat

text \<open>
  A \<open>SendPredicate\<close> is a Go closure \<open>func() bool\<close> over state the executor does not
  see: the model gives its answer at the n-th call.
\<close>

type_synonym SendPredicate = "nat \<Rightarrow> bool"

datatype error =
    ExternalError string
  | UnableToSendMsgs error
  | UnableToBroadcastTxn error
  | UnableToRegisterSpend error
  | UnableToRegisterConf error
  | UnknownDaemonEvent
  | ShuttingDown
  | TimeoutHit

text \<open>
  Modelled from the spec: the declarations of the daemon event types (file
  daemon_events.go of the package) are not among the sources. The fields are the ones
  \<open>executeDaemonEvent\<close> reads, in the order of the spec's data model: SendMsgEvent has
  TargetPeer, Msgs, SendWhen, PostSendEvent; BroadcastTxn has Tx, Label; RegisterSpend
  has OutPoint, PkScript, HeightHint, PostSpendEvent; RegisterConf has Txid, PkScript,
  NumConfs, HeightHint, PostConfEvent. \<open>DaemonEvent\<close> is an open Go interface:
  \<open>OtherDaemonEvent\<close> stands for a value of any other implementing type.
\<close>

datatype 'e DaemonEvent =
    SendMsgEvent PublicKey "Message list" "SendPredicate option" "'e option"
  | BroadcastTxn MsgTx string
  | RegisterSpend OutPoint bytes uint32 "'e option"
  | RegisterConf Hash bytes "uint32 option" uint32 "'e option"
  | OtherDaemonEvent string

record 'e EmittedEvent =
  InternalEvent :: "'e option"
  ExternalEvents :: "'e DaemonEvent list option"

record ('s, 'e) StateTransition =
  NextState :: 's
  NewEvents :: "'e EmittedEvent option"

text \<open>The \<open>State\<close> interface and the \<open>Environment\<close> interface.\<close>

record ('s, 'e, 'env) StateOps =
  ProcessEvent :: "'s \<Rightarrow> 'e \<Rightarrow> 'env \<Rightarrow> error + ('s, 'e) StateTransition"
  IsTerminal :: "'s \<Rightarrow> bool"
  CleanUp :: "'env \<Rightarrow> error option"

text \<open>
  The \<open>DaemonAdapters\<close> interface. An adapter has a state of its own, of type \<open>'d\<close>,
  which every call may read and change.
\<close>

record 'd DaemonAdapters =
  SendMessages :: "'d \<Rightarrow> PublicKey \<Rightarrow> Message list \<Rightarrow> error option \<times> 'd"
  BroadcastTransaction :: "'d \<Rightarrow> MsgTx \<Rightarrow> string \<Rightarrow> error option \<times> 'd"
  RegisterConfirmationsNtfn ::
    "'d \<Rightarrow> Hash \<Rightarrow> bytes \<Rightarrow> uint32 \<Rightarrow> uint32 \<Rightarrow> (error + ConfirmationEvent) \<times> 'd"
  RegisterSpendNtfn :: "'d \<Rightarrow> OutPoint \<Rightarrow> bytes \<Rightarrow> uint32 \<Rightarrow> (error + SpendEvent) \<times> 'd"

section \<open>Effects\<close>

text \<open>
  What the executor does to the outside is recorded, in order, in a trace: the calls of
  the adapter, the states handed to the subscription hub, the calls of \<open>CleanUp\<close>, the
  lines written to the log, the states sent in reply to a query; and, of the executor's
  own steps, the calls of \<open>executeDaemonEvent\<close> and the operations on the event queue
  of \<open>applyEvents\<close>.
\<close>

datatype logline = UnableToApplyEvent error | UnableToCleanUpEnv error

datatype ('s, 'e) effect =
    Dequeued 'e
  | Enqueued 'e
  | Dispatched "'e DaemonEvent"
  | SendMessagesCall PublicKey "Message list"
  | BroadcastTransactionCall MsgTx string
  | RegisterSpendNtfnCall OutPoint bytes uint32
  | RegisterConfirmationsNtfnCall Hash bytes uint32 uint32
  | Notified 's
  | CleanUpCall
  | Logged logline
  | Replied 's

text \<open>
  The goroutines \<open>executeDaemonEvent\<close> starts (each after \<open>s.wg.Add(1)\<close>): the one that
  calls \<open>SendEvent\<close>, the one that polls a \<open>SendWhen\<close> predicate (with the number of
  polls made so far), and the two that wait for a spend or for a confirmation.
\<close>

datatype 'e waiter =
    InjectEvent 'e
  | PollSendWhen PublicKey "Message list" SendPredicate "'e option" nat
  | AwaitSpend SpendEvent "'e option"
  | AwaitConf ConfirmationEvent "'e option"

record ('s, 'e, 'd) world =
  daemonState :: 'd
  trace :: "('s, 'e) effect list"
  goroutines :: "'e waiter list"
  subscribers :: "'s list list"

definition emit :: "('s, 'e) effect \<Rightarrow> ('s, 'e, 'd) world \<Rightarrow> ('s, 'e, 'd) world" where
  "emit x w = w\<lparr>trace := trace w @ [x]\<rparr>"

definition spawn :: "'e waiter \<Rightarrow> ('s, 'e, 'd) world \<Rightarrow> ('s, 'e, 'd) world" where
  "spawn g w = w\<lparr>goroutines := goroutines w @ [g]\<rparr>"

section \<open>The daemon event dispatcher\<close>

text \<open>
  The closure \<open>sendAndCleanUp\<close> of \<open>executeDaemonEvent\<close>: send the messages; on success
  start the goroutine that feeds the post-send event, if there is one, back to the machine.
\<close>

definition sendAndCleanUp ::
  "'d DaemonAdapters \<Rightarrow> PublicKey \<Rightarrow> Message list \<Rightarrow> 'e option \<Rightarrow> ('s, 'e, 'd) world
     \<Rightarrow> error option \<times> ('s, 'e, 'd) world" where
  "sendAndCleanUp ad peer msgs post w =
     (case SendMessages ad (daemonState w) peer msgs of
        (Some err, d') \<Rightarrow>
          (Some (UnableToSendMsgs err), emit (SendMessagesCall peer msgs) (w\<lparr>daemonState := d'\<rparr>))
      | (None, d') \<Rightarrow>
          (let w1 = emit (SendMessagesCall peer msgs) (w\<lparr>daemonState := d'\<rparr>)
           in (None, case post of None \<Rightarrow> w1 | Some ev \<Rightarrow> spawn (InjectEvent ev) w1)))"

text \<open>
  The body of the type switch of \<open>executeDaemonEvent\<close>, one equation for each case, in the
  order of the source. The cases SendMsgEvent, BroadcastTxn and RegisterSpend end in a
  \<open>return\<close>. The case RegisterConf has no \<open>return\<close> after it has started its goroutine:
  control leaves the switch and reaches the last statement of the function, which returns
  the error for an unknown daemon event.
\<close>

fun dispatch ::
  "'d DaemonAdapters \<Rightarrow> 'e DaemonEvent \<Rightarrow> ('s, 'e, 'd) world \<Rightarrow> error option \<times> ('s, 'e, 'd) world"
  where
  "dispatch ad (SendMsgEvent peer msgs None post) w = sendAndCleanUp ad peer msgs post w"
| "dispatch ad (SendMsgEvent peer msgs (Some pred) post) w =
     (None, spawn (PollSendWhen peer msgs pred post 0) w)"
| "dispatch ad (BroadcastTxn tx label) w =
     (case BroadcastTransaction ad (daemonState w) tx label of
        (Some err, d') \<Rightarrow>
          (Some (UnableToBroadcastTxn err),
           emit (BroadcastTransactionCall tx label) (w\<lparr>daemonState := d'\<rparr>))
      | (None, d') \<Rightarrow> (None, emit (BroadcastTransactionCall tx label) (w\<lparr>daemonState := d'\<rparr>)))"
| "dispatch ad (RegisterSpend op pkScript hint post) w =
     (case RegisterSpendNtfn ad (daemonState w) op pkScript hint of
        (Inl err, d') \<Rightarrow>
          (Some (UnableToRegisterSpend err),
           emit (RegisterSpendNtfnCall op pkScript hint) (w\<lparr>daemonState := d'\<rparr>))
      | (Inr spendEvent, d') \<Rightarrow>
          (None,
           spawn (AwaitSpend spendEvent post)
             (emit (RegisterSpendNtfnCall op pkScript hint) (w\<lparr>daemonState := d'\<rparr>))))"
| "dispatch ad (RegisterConf txid pkScript numConfsOpt hint post) w =
     (let numConfs = (case numConfsOpt of None \<Rightarrow> 1 | Some n \<Rightarrow> n)
      in case RegisterConfirmationsNtfn ad (daemonState w) txid pkScript numConfs hint of
           (Inl err, d') \<Rightarrow>
             (Some (UnableToRegisterConf err),
              emit (RegisterConfirmationsNtfnCall txid pkScript numConfs hint)
                (w\<lparr>daemonState := d'\<rparr>))
         | (Inr confEvent, d') \<Rightarrow>
             (Some UnknownDaemonEvent,
              spawn (AwaitConf confEvent post)
                (emit (RegisterConfirmationsNtfnCall txid pkScript numConfs hint)
                   (w\<lparr>daemonState := d'\<rparr>))))"
| "dispatch ad (OtherDaemonEvent name) w = (Some UnknownDaemonEvent, w)"

definition executeDaemonEvent ::
  "'d DaemonAdapters \<Rightarrow> 'e DaemonEvent \<Rightarrow> ('s, 'e, 'd) world \<Rightarrow> error option \<times> ('s, 'e, 'd) world"
  where
  "executeDaemonEvent ad event w = dispatch ad event (emit (Dispatched event) w)"

section \<open>The transition engine\<close>

text \<open>
  Modelled from the spec: the queue type of package fn (\<open>NewQueue\<close>, \<open>Enqueue\<close>,
  \<open>Dequeue\<close>) is not among the sources. It is the spec's internal FIFO: a queue seeded
  with the first event, "Dequeue the next event; if empty, stop" and "Enqueue the emitted
  internal event (if any) at the tail".
\<close>

definition NewQueue :: "'a \<Rightarrow> 'a list" where
  "NewQueue x = [x]"

definition Enqueue :: "'a list \<Rightarrow> 'a \<Rightarrow> 'a list" where
  "Enqueue q x = q @ [x]"

fun Dequeue :: "'a list \<Rightarrow> 'a option \<times> 'a list" where
  "Dequeue [] = (None, [])"
| "Dequeue (x # q) = (Some x, q)"

text \<open>
  Modelled from the spec: the event distributor of package fn is not among the sources.
  It is the spec's subscription hub: "bounded per-subscriber buffers (capacity 10). On
  publish, the hub attempts non-blocking delivery to each subscriber; a slow subscriber
  drops the update." A subscriber is the buffer of the states delivered to it and not yet
  read; \<open>RegisterStateEvents\<close> attaches a new, empty one.
\<close>

definition subscriberBufferSize :: nat where
  "subscriberBufferSize = 10"

definition deliver :: "'s \<Rightarrow> 's list \<Rightarrow> 's list" where
  "deliver st buf = (if length buf < subscriberBufferSize then buf @ [st] else buf)"

definition NotifySubscribers :: "'s \<Rightarrow> ('s, 'e, 'd) world \<Rightarrow> ('s, 'e, 'd) world" where
  "NotifySubscribers st w = emit (Notified st) (w\<lparr>subscribers := map (deliver st) (subscribers w)\<rparr>)"

definition RegisterStateEvents :: "('s, 'e, 'd) world \<Rightarrow> ('s, 'e, 'd) world" where
  "RegisterStateEvents w = w\<lparr>subscribers := subscribers w @ [[]]\<rparr>"

text \<open>
  The fields of the struct \<open>StateMachine\<close> that the engine and the driver read. No
  statement of the package assigns to the field \<open>currentState\<close> after \<open>NewStateMachine\<close>
  has set it, so the struct is passed along unchanged.
\<close>

record ('s, 'e, 'env, 'd) StateMachine =
  currentState :: 's
  env :: 'env
  daemon :: "'d DaemonAdapters"

definition NewStateMachine ::
  "'d DaemonAdapters \<Rightarrow> 's \<Rightarrow> 'env \<Rightarrow> ('s, 'e, 'env, 'd) StateMachine" where
  "NewStateMachine adapters initialState environment =
     \<lparr>currentState = initialState, env = environment, daemon = adapters\<rparr>"

text \<open>The \<open>for ... range dEvents\<close> loop of \<open>applyEvents\<close>: the first error ends it.\<close>

fun executeDaemonEvents ::
  "'d DaemonAdapters \<Rightarrow> 'e DaemonEvent list \<Rightarrow> ('s, 'e, 'd) world
     \<Rightarrow> error option \<times> ('s, 'e, 'd) world" where
  "executeDaemonEvents ad [] w = (None, w)"
| "executeDaemonEvents ad (dEvent # dEvents) w =
     (case executeDaemonEvent ad dEvent w of
        (Some err, w1) \<Rightarrow> (Some err, w1)
      | (None, w1) \<Rightarrow> executeDaemonEvents ad dEvents w1)"

text \<open>
  The closure applied to \<open>transition.NewEvents\<close>: dispatch the external events, then put
  the internal event on the queue.
\<close>

definition handleNewEvents ::
  "'d DaemonAdapters \<Rightarrow> 'e list \<Rightarrow> 'e EmittedEvent option \<Rightarrow> ('s, 'e, 'd) world
     \<Rightarrow> error option \<times> 'e list \<times> ('s, 'e, 'd) world" where
  "handleNewEvents ad q newEvents w =
     (case newEvents of
        None \<Rightarrow> (None, q, w)
      | Some events \<Rightarrow>
          (case (case ExternalEvents events of
                   None \<Rightarrow> (None, w)
                 | Some dEvents \<Rightarrow> executeDaemonEvents ad dEvents w) of
             (Some err, w1) \<Rightarrow> (Some err, q, w1)
           | (None, w1) \<Rightarrow>
               (case InternalEvent events of
                  None \<Rightarrow> (None, q, w1)
                | Some inEvent \<Rightarrow> (None, Enqueue q inEvent, emit (Enqueued inEvent) w1))))"

text \<open>
  The closure applied to each event taken from the queue. It returns the error, the local
  variable \<open>currentState\<close>, the queue and the world.
\<close>

definition applyEvent ::
  "('s, 'e, 'env) StateOps \<Rightarrow> ('s, 'e, 'env, 'd) StateMachine \<Rightarrow> 's \<Rightarrow> 'e list \<Rightarrow> 'e
     \<Rightarrow> ('s, 'e, 'd) world \<Rightarrow> error option \<times> 's \<times> 'e list \<times> ('s, 'e, 'd) world" where
  "applyEvent ops s cur q event w =
     (case ProcessEvent ops cur event (env s) of
        Inl err \<Rightarrow> (Some err, cur, q, w)
      | Inr transition \<Rightarrow>
          (case handleNewEvents (daemon s) q (NewEvents transition) w of
             (Some err, q1, w1) \<Rightarrow> (Some err, cur, q1, w1)
           | (None, q1, w1) \<Rightarrow>
               (None, NextState transition, q1, NotifySubscribers (NextState transition) w1)))"

text \<open>
  The loop of \<open>applyEvents\<close>. A state machine whose transitions keep emitting internal
  events never leaves it, so the loop takes a bound on the number of iterations and
  returns \<open>None\<close> when the bound is used up.
\<close>

fun applyLoop ::
  "nat \<Rightarrow> ('s, 'e, 'env) StateOps \<Rightarrow> ('s, 'e, 'env, 'd) StateMachine \<Rightarrow> 's \<Rightarrow> 'e list
     \<Rightarrow> ('s, 'e, 'd) world \<Rightarrow> ('s \<times> error option \<times> ('s, 'e, 'd) world) option" where
  "applyLoop 0 ops s cur q w = None"
| "applyLoop (Suc n) ops s cur q w =
     (case Dequeue q of
        (None, q1) \<Rightarrow> Some (cur, None, w)
      | (Some event, q1) \<Rightarrow>
          (case applyEvent ops s cur q1 event (emit (Dequeued event) w) of
             (Some err, cur1, q2, w1) \<Rightarrow> Some (cur1, Some err, w1)
           | (None, cur1, q2, w1) \<Rightarrow> applyLoop n ops s cur1 q2 w1))"

definition applyEvents ::
  "nat \<Rightarrow> ('s, 'e, 'env) StateOps \<Rightarrow> ('s, 'e, 'env, 'd) StateMachine \<Rightarrow> 'e
     \<Rightarrow> ('s, 'e, 'd) world \<Rightarrow> ('s \<times> error option \<times> ('s, 'e, 'd) world) option" where
  "applyEvents n ops s newEvent w = applyLoop n ops s (currentState s) (NewQueue newEvent) w"

section \<open>The driver\<close>

text \<open>
  One iteration of the \<open>select\<close> of \<open>driveMachine\<close> takes an event from the intake
  channel, or a state query, or sees the quit channel closed. The sequence of the cases
  taken is the input of the model. \<open>StateQuery b\<close> carries the result of the
  \<open>SendOrQuit\<close> that sends the reply: whether the state was sent.
\<close>

datatype 'e selected = NewEvent 'e | StateQuery bool | QuitClosed

text \<open>The driver goroutine waits in its \<open>select\<close>, holding its local variable, or has returned.\<close>

datatype 's driver = Waiting 's | Returned

definition cleanUpEnv ::
  "('s, 'e, 'env) StateOps \<Rightarrow> ('s, 'e, 'env, 'd) StateMachine \<Rightarrow> ('s, 'e, 'd) world
     \<Rightarrow> ('s, 'e, 'd) world" where
  "cleanUpEnv ops s w =
     (case CleanUp ops (env s) of
        None \<Rightarrow> emit CleanUpCall w
      | Some err \<Rightarrow> emit (Logged (UnableToCleanUpEnv err)) (emit CleanUpCall w))"

fun driveLoop ::
  "nat \<Rightarrow> ('s, 'e, 'env) StateOps \<Rightarrow> ('s, 'e, 'env, 'd) StateMachine \<Rightarrow> 's \<Rightarrow> 'e selected list
     \<Rightarrow> ('s, 'e, 'd) world \<Rightarrow> ('s driver \<times> ('s, 'e, 'd) world) option" where
  "driveLoop n ops s cur [] w = Some (Waiting cur, w)"
| "driveLoop n ops s cur (NewEvent newEvent # sels) w =
     (case applyEvents n ops s newEvent w of
        None \<Rightarrow> None
      | Some (newState, Some err, w1) \<Rightarrow>
          driveLoop n ops s cur sels (emit (Logged (UnableToApplyEvent err)) w1)
      | Some (newState, None, w1) \<Rightarrow>
          driveLoop n ops s newState sels
            (if IsTerminal ops newState then cleanUpEnv ops s w1 else w1))"
| "driveLoop n ops s cur (StateQuery True # sels) w =
     driveLoop n ops s cur sels (emit (Replied cur) w)"
| "driveLoop n ops s cur (StateQuery False # sels) w = Some (Returned, w)"
| "driveLoop n ops s cur (QuitClosed # sels) w = Some (Returned, w)"

definition driveMachine ::
  "nat \<Rightarrow> ('s, 'e, 'env) StateOps \<Rightarrow> ('s, 'e, 'env, 'd) StateMachine \<Rightarrow> 'e selected list
     \<Rightarrow> ('s, 'e, 'd) world \<Rightarrow> ('s driver \<times> ('s, 'e, 'd) world) option" where
  "driveMachine n ops s sels w =
     driveLoop n ops s (currentState s) sels (NotifySubscribers (currentState s) w)"

section \<open>The goroutines of the dispatcher\<close>

text \<open>
  A goroutine started by \<open>executeDaemonEvent\<close> blocks in a \<open>select\<close> with two cases: its
  own channel (the ticker, the spend or confirmation channel, the intake channel inside
  \<open>SendEvent\<close>) or the quit channel. One step of a goroutine returns what is left of it,
  the event it has put on the intake channel, and the world. None of the goroutines
  returns a value or writes to the log.
\<close>

datatype wake = Fired | Quit

fun stepWaiter ::
  "'d DaemonAdapters \<Rightarrow> 'e waiter \<Rightarrow> wake \<Rightarrow> ('s, 'e, 'd) world
     \<Rightarrow> 'e waiter option \<times> 'e option \<times> ('s, 'e, 'd) world" where
  "stepWaiter ad g Quit w = (None, None, w)"
| "stepWaiter ad (InjectEvent ev) Fired w = (None, Some ev, w)"
| "stepWaiter ad (PollSendWhen peer msgs pred post k) Fired w =
     (if pred k then (None, None, snd (sendAndCleanUp ad peer msgs post w))
      else (Some (PollSendWhen peer msgs pred post (Suc k)), None, w))"
| "stepWaiter ad (AwaitSpend spendEvent post) Fired w =
     (case post of None \<Rightarrow> (None, None, w) | Some ev \<Rightarrow> (Some (InjectEvent ev), None, w))"
| "stepWaiter ad (AwaitConf confEvent post) Fired w =
     (case post of None \<Rightarrow> (None, None, w) | Some ev \<Rightarrow> (Some (InjectEvent ev), None, w))"

text \<open>
  A goroutine run over a sequence of wake-ups: what is left of it, the events it has put on
  the intake channel, and the world. Once it has returned, later wake-ups find nothing.
\<close>

fun runWaiter ::
  "'d DaemonAdapters \<Rightarrow> 'e waiter \<Rightarrow> wake list \<Rightarrow> ('s, 'e, 'd) world
     \<Rightarrow> 'e waiter option \<times> 'e list \<times> ('s, 'e, 'd) world" where
  "runWaiter ad g [] w = (Some g, [], w)"
| "runWaiter ad g (x # xs) w =
     (case stepWaiter ad g x w of
        (None, sent, w1) \<Rightarrow> (None, (case sent of None \<Rightarrow> [] | Some ev \<Rightarrow> [ev]), w1)
      | (Some g1, sent, w1) \<Rightarrow>
          (case runWaiter ad g1 xs w1 of
             (g2, evs, w2) \<Rightarrow> (g2, (case sent of None \<Rightarrow> [] | Some ev \<Rightarrow> [ev]) @ evs, w2)))"

section \<open>The state query\<close>






section \<open>Projections of a trace\<close>

fun dispatched :: "('s, 'e) effect list \<Rightarrow> 'e DaemonEvent list" where
  "dispatched [] = []"
| "dispatched (Dispatched d # t) = d # dispatched t"
| "dispatched (x # t) = dispatched t"

fun enqueued :: "('s, 'e) effect list \<Rightarrow> 'e list" where
  "enqueued [] = []"
| "enqueued (Enqueued ev # t) = ev # enqueued t"
| "enqueued (x # t) = enqueued t"

fun dequeued :: "('s, 'e) effect list \<Rightarrow> 'e list" where
  "dequeued [] = []"
| "dequeued (Dequeued ev # t) = ev # dequeued t"
| "dequeued (x # t) = dequeued t"

fun notified :: "('s, 'e) effect list \<Rightarrow> 's list" where
  "notified [] = []"
| "notified (Notified st # t) = st # notified t"
| "notified (x # t) = notified t"

fun logged :: "('s, 'e) effect list \<Rightarrow> logline list" where
  "logged [] = []"
| "logged (Logged l # t) = l # logged t"
| "logged (x # t) = logged t"

fun cleanUps :: "('s, 'e) effect list \<Rightarrow> nat" where
  "cleanUps [] = 0"
| "cleanUps (CleanUpCall # t) = Suc (cleanUps t)"
| "cleanUps (x # t) = cleanUps t"

fun replied :: "('s, 'e) effect list \<Rightarrow> 's list" where
  "replied [] = []"
| "replied (Replied st # t) = st # replied t"
| "replied (x # t) = replied t"

text \<open>The effects that are calls of the adapter.\<close>

fun isCall :: "('s, 'e) effect \<Rightarrow> bool" where
  "isCall (SendMessagesCall peer msgs) = True"
| "isCall (BroadcastTransactionCall tx label) = True"
| "isCall (RegisterSpendNtfnCall op pkScript hint) = True"
| "isCall (RegisterConfirmationsNtfnCall txid pkScript n hint) = True"
| "isCall x = False"

text \<open>Every subscriber has the state \<open>st\<close> at the head of its buffer.\<close>

definition headed :: "'s \<Rightarrow> ('s, 'e, 'd) world \<Rightarrow> bool" where
  "headed st w = list_all (\<lambda>buf. buf \<noteq> [] \<and> hd buf = st) (subscribers w)"

section \<open>Concrete collaborators\<close>

text \<open>An adapter every call of which succeeds, and one every call of which fails.\<close>

definition okAdapters :: "unit DaemonAdapters" where
  "okAdapters =
     \<lparr>SendMessages = (\<lambda>d peer msgs. (None, d)),
      BroadcastTransaction = (\<lambda>d tx label. (None, d)),
      RegisterConfirmationsNtfn = (\<lambda>d txid pkScript numConfs hint. (Inr 7, d)),
      RegisterSpendNtfn = (\<lambda>d op pkScript hint. (Inr 8, d))\<rparr>"

definition downAdapters :: "unit DaemonAdapters" where
  "downAdapters =
     \<lparr>SendMessages = (\<lambda>d peer msgs. (Some (ExternalError ''down''), d)),
      BroadcastTransaction = (\<lambda>d tx label. (Some (ExternalError ''down''), d)),
      RegisterConfirmationsNtfn =
        (\<lambda>d txid pkScript numConfs hint. (Inl (ExternalError ''down''), d)),
      RegisterSpendNtfn = (\<lambda>d op pkScript hint. (Inl (ExternalError ''down''), d))\<rparr>"

definition emptyWorld :: "('s, 'e, unit) world" where
  "emptyWorld = \<lparr>daemonState = (), trace = [], goroutines = [], subscribers = []\<rparr>"

text \<open>
  A machine that counts the events it has processed: the state is the count, and no state
  is terminal.
\<close>

definition counterOps :: "(nat, unit, unit) StateOps" where
  "counterOps =
     \<lparr>ProcessEvent = (\<lambda>st ev e. Inr \<lparr>NextState = Suc st, NewEvents = None\<rparr>),
      IsTerminal = (\<lambda>st. False),
      CleanUp = (\<lambda>e. None)\<rparr>"

text \<open>
  A machine with the states A, B, C and the terminal state D. From A the event E0 leads
  to B, broadcasts a transaction, sends a message and emits E1; from B the event E1
  leads to C and emits E2, and the event E0 leads to C and emits E0; from C the event E2
  leads to D; D stays D on every event; every other event is an error.
\<close>

datatype dstate = A | B | C | D

datatype devent = E0 | E1 | E2

fun demoProcessEvent :: "dstate \<Rightarrow> devent \<Rightarrow> unit \<Rightarrow> error + (dstate, devent) StateTransition" where
  "demoProcessEvent A E0 e =
     Inr \<lparr>NextState = B,
          NewEvents = Some \<lparr>InternalEvent = Some E1,
            ExternalEvents = Some [BroadcastTxn [1] ''x'', SendMsgEvent [2] [[3]] None None]\<rparr>\<rparr>"
| "demoProcessEvent B E1 e =
     Inr \<lparr>NextState = C,
          NewEvents = Some \<lparr>InternalEvent = Some E2, ExternalEvents = None\<rparr>\<rparr>"
| "demoProcessEvent B E0 e =
     Inr \<lparr>NextState = C,
          NewEvents = Some \<lparr>InternalEvent = Some E0, ExternalEvents = None\<rparr>\<rparr>"
| "demoProcessEvent C E2 e = Inr \<lparr>NextState = D, NewEvents = None\<rparr>"
| "demoProcessEvent D ev e = Inr \<lparr>NextState = D, NewEvents = None\<rparr>"
| "demoProcessEvent st ev e = Inl (ExternalError ''unexpected event'')"

definition demoOps :: "(dstate, devent, unit) StateOps" where
  "demoOps =
     \<lparr>ProcessEvent = demoProcessEvent,
      IsTerminal = (\<lambda>st. st = D),
      CleanUp = (\<lambda>e. None)\<rparr>"

section \<open>The channel announcement\<close>

text \<open>
  The TLV section of a \<open>ChannelAnnouncement2\<close>, in package lnwire. A record of the TLV
  stream is one of the nine records the message knows, with its type number.
\<close>

type_synonym uint64 = "64 word"

datatype tlvRecord =
    ChainHashRecord Hash
  | FeaturesRecord bytes
  | ShortChannelIDRecord uint64
  | CapacityRecord uint64
  | NodeID1Record bytes
  | NodeID2Record bytes
  | BitcoinKey1Record bytes
  | BitcoinKey2Record bytes
  | MerkleRootHashRecord bytes

fun tlvType :: "tlvRecord \<Rightarrow> nat" where
  "tlvType (ChainHashRecord h) = 0"
| "tlvType (FeaturesRecord f) = 2"
| "tlvType (ShortChannelIDRecord x) = 4"
| "tlvType (CapacityRecord x) = 6"
| "tlvType (NodeID1Record k) = 8"
| "tlvType (NodeID2Record k) = 10"
| "tlvType (BitcoinKey1Record k) = 12"
| "tlvType (BitcoinKey2Record k) = 14"
| "tlvType (MerkleRootHashRecord h) = 16"

text \<open>
  The encoding of a TLV stream is the work of package tlv and of the methods of
  \<open>ExtraOpaqueData\<close>, which are not among the sources, and the spec leaves the wire
  formats to the collaborators: the two functions the message calls are parameters.
  \<open>ExtractRecords\<close> parses the bytes and returns the known records it has found, in
  the order of the stream: a type is a key of the type map the Go function returns when a
  record of that type is in this list, and the value handed back for it is the value of
  that record. \<open>EncodeMessageExtraData\<close> writes the records it is given.
\<close>

record tlvCodec =
  ExtractRecords :: "bytes \<Rightarrow> error + tlvRecord list"
  EncodeMessageExtraData :: "tlvRecord list \<Rightarrow> error + bytes"

record ChannelAnnouncement2 =
  Signature :: bytes
  ChainHash :: Hash
  Features :: bytes
  ShortChannelID :: uint64
  Capacity :: uint64
  NodeID1 :: bytes
  NodeID2 :: bytes
  BitcoinKey1 :: "bytes option"
  BitcoinKey2 :: "bytes option"
  MerkleRootHash :: "bytes option"
  ExtraOpaqueData :: bytes

text \<open>The value of the first record of a kind in a list of records.\<close>

definition firstOf :: "('a \<Rightarrow> 'b option) \<Rightarrow> 'a list \<Rightarrow> 'b option" where
  "firstOf f rs = (case List.map_filter f rs of [] \<Rightarrow> None | x # xs \<Rightarrow> Some x)"

fun chainHashVal :: "tlvRecord \<Rightarrow> Hash option" where
  "chainHashVal (ChainHashRecord h) = Some h"
| "chainHashVal r = None"

fun featuresVal :: "tlvRecord \<Rightarrow> bytes option" where
  "featuresVal (FeaturesRecord f) = Some f"
| "featuresVal r = None"

fun shortChannelIDVal :: "tlvRecord \<Rightarrow> uint64 option" where
  "shortChannelIDVal (ShortChannelIDRecord x) = Some x"
| "shortChannelIDVal r = None"

fun capacityVal :: "tlvRecord \<Rightarrow> uint64 option" where
  "capacityVal (CapacityRecord x) = Some x"
| "capacityVal r = None"

fun nodeID1Val :: "tlvRecord \<Rightarrow> bytes option" where
  "nodeID1Val (NodeID1Record k) = Some k"
| "nodeID1Val r = None"

fun nodeID2Val :: "tlvRecord \<Rightarrow> bytes option" where
  "nodeID2Val (NodeID2Record k) = Some k"
| "nodeID2Val r = None"

fun bitcoinKey1Val :: "tlvRecord \<Rightarrow> bytes option" where
  "bitcoinKey1Val (BitcoinKey1Record k) = Some k"
| "bitcoinKey1Val r = None"

fun bitcoinKey2Val :: "tlvRecord \<Rightarrow> bytes option" where
  "bitcoinKey2Val (BitcoinKey2Record k) = Some k"
| "bitcoinKey2Val r = None"

fun merkleRootHashVal :: "tlvRecord \<Rightarrow> bytes option" where
  "merkleRootHashVal (MerkleRootHashRecord h) = Some h"
| "merkleRootHashVal r = None"

text \<open>
  \<open>DecodeTLVRecords\<close>, given the bytes read from the reader. The genesis hash of the
  bitcoin main network is a constant of the library chaincfg and is a parameter here.
  The mandatory fields are written by \<open>ExtractRecords\<close> itself when their record is in
  the stream and keep their value otherwise; the chain hash is first set to the genesis
  hash and then, when the type map has the type 0, to the value of the record; each of
  the three optional fields is set when the type map has its type.
\<close>

definition DecodeTLVRecords ::
  "tlvCodec \<Rightarrow> Hash \<Rightarrow> bytes \<Rightarrow> ChannelAnnouncement2 \<Rightarrow> error + ChannelAnnouncement2" where
  "DecodeTLVRecords codec genesis tlvRecords c =
     (case ExtractRecords codec tlvRecords of
        Inl err \<Rightarrow> Inl err
      | Inr found \<Rightarrow>
          Inr (c\<lparr>ChainHash :=
                   (case firstOf chainHashVal found of None \<Rightarrow> genesis | Some h \<Rightarrow> h),
                 Features := (case firstOf featuresVal found of None \<Rightarrow> Features c | Some f \<Rightarrow> f),
                 ShortChannelID :=
                   (case firstOf shortChannelIDVal found of None \<Rightarrow> ShortChannelID c | Some x \<Rightarrow> x),
                 Capacity := (case firstOf capacityVal found of None \<Rightarrow> Capacity c | Some x \<Rightarrow> x),
                 NodeID1 := (case firstOf nodeID1Val found of None \<Rightarrow> NodeID1 c | Some k \<Rightarrow> k),
                 NodeID2 := (case firstOf nodeID2Val found of None \<Rightarrow> NodeID2 c | Some k \<Rightarrow> k),
                 BitcoinKey1 :=
                   (case firstOf bitcoinKey1Val found of None \<Rightarrow> BitcoinKey1 c | Some k \<Rightarrow> Some k),
                 BitcoinKey2 :=
                   (case firstOf bitcoinKey2Val found of None \<Rightarrow> BitcoinKey2 c | Some k \<Rightarrow> Some k),
                 MerkleRootHash :=
                   (case firstOf merkleRootHashVal found of
                      None \<Rightarrow> MerkleRootHash c
                    | Some h \<Rightarrow> Some h),
                 ExtraOpaqueData :=
                   (if length tlvRecords \<noteq> 0 then tlvRecords else ExtraOpaqueData c)\<rparr>))"

text \<open>The slice \<open>recordProducers\<close> that \<open>DataToSign\<close> builds, in the order of the appends.\<close>

definition recordProducers :: "Hash \<Rightarrow> ChannelAnnouncement2 \<Rightarrow> tlvRecord list" where
  "recordProducers genesis c =
     (if ChainHash c \<noteq> genesis then [ChainHashRecord (ChainHash c)] else [])
     @ [FeaturesRecord (Features c), ShortChannelIDRecord (ShortChannelID c),
        CapacityRecord (Capacity c), NodeID1Record (NodeID1 c), NodeID2Record (NodeID2 c)]
     @ (case BitcoinKey1 c of None \<Rightarrow> [] | Some k \<Rightarrow> [BitcoinKey1Record k])
     @ (case BitcoinKey2 c of None \<Rightarrow> [] | Some k \<Rightarrow> [BitcoinKey2Record k])
     @ (case MerkleRootHash c of None \<Rightarrow> [] | Some h \<Rightarrow> [MerkleRootHashRecord h])"

text \<open>
  \<open>DataToSign\<close> encodes the records into the field \<open>ExtraOpaqueData\<close> and returns the
  bytes: the result is the bytes and the message as the call leaves it.
\<close>

definition DataToSign ::
  "tlvCodec \<Rightarrow> Hash \<Rightarrow> ChannelAnnouncement2 \<Rightarrow> error + bytes \<times> ChannelAnnouncement2" where
  "DataToSign codec genesis c =
     (case EncodeMessageExtraData codec (recordProducers genesis c) of
        Inl err \<Rightarrow> Inl err
      | Inr data \<Rightarrow> Inr (data, c\<lparr>ExtraOpaqueData := data\<rparr>))"

text \<open>
  A small TLV codec to run the message on: a record is its type in one byte, the length
  of its value in one byte, and the value, a 64-bit number being eight bytes, the most
  significant first. A record of an unknown type is passed over. The genesis hash of the
  bitcoin main network, in the byte order of \<open>chainhash.Hash\<close>.
\<close>

definition be64 :: "uint64 \<Rightarrow> bytes" where
  "be64 x = map (\<lambda>i. ucast (drop_bit (8 * i) x)) [7, 6, 5, 4, 3, 2, 1, 0]"

definition unbe64 :: "bytes \<Rightarrow> uint64" where
  "unbe64 bs = foldl (\<lambda>acc b. push_bit 8 acc OR ucast b) 0 bs"

fun payload :: "tlvRecord \<Rightarrow> bytes" where
  "payload (ChainHashRecord h) = h"
| "payload (FeaturesRecord f) = f"
| "payload (ShortChannelIDRecord x) = be64 x"
| "payload (CapacityRecord x) = be64 x"
| "payload (NodeID1Record k) = k"
| "payload (NodeID2Record k) = k"
| "payload (BitcoinKey1Record k) = k"
| "payload (BitcoinKey2Record k) = k"
| "payload (MerkleRootHashRecord h) = h"

definition toyRecord :: "nat \<Rightarrow> bytes \<Rightarrow> error + tlvRecord option" where
  "toyRecord t p =
     (if t = 0 then Inr (Some (ChainHashRecord p))
      else if t = 2 then Inr (Some (FeaturesRecord p))
      else if t = 4 then
        (if length p = 8 then Inr (Some (ShortChannelIDRecord (unbe64 p)))
         else Inl (ExternalError ''length''))
      else if t = 6 then
        (if length p = 8 then Inr (Some (CapacityRecord (unbe64 p)))
         else Inl (ExternalError ''length''))
      else if t = 8 then Inr (Some (NodeID1Record p))
      else if t = 10 then Inr (Some (NodeID2Record p))
      else if t = 12 then Inr (Some (BitcoinKey1Record p))
      else if t = 14 then Inr (Some (BitcoinKey2Record p))
      else if t = 16 then Inr (Some (MerkleRootHashRecord p))
      else Inr None)"

fun toyExtract :: "bytes \<Rightarrow> error + tlvRecord list" where
  "toyExtract [] = Inr []"
| "toyExtract [t] = Inl (ExternalError ''truncated'')"
| "toyExtract (t # l # rest) =
     (if length rest < unat l then Inl (ExternalError ''truncated'')
      else case toyRecord (unat t) (take (unat l) rest) of
             Inl err \<Rightarrow> Inl err
           | Inr r \<Rightarrow>
               (case toyExtract (drop (unat l) rest) of
                  Inl err \<Rightarrow> Inl err
                | Inr rs \<Rightarrow> Inr ((case r of None \<Rightarrow> [] | Some x \<Rightarrow> [x]) @ rs)))"

definition toyEncode :: "tlvRecord list \<Rightarrow> error + bytes" where
  "toyEncode rs =
     Inr (concat (map (\<lambda>r. [of_nat (tlvType r), of_nat (length (payload r))] @ payload r) rs))"

definition toyCodec :: tlvCodec where
  "toyCodec = \<lparr>ExtractRecords = toyExtract, EncodeMessageExtraData = toyEncode\<rparr>"

definition mainNetGenesisHash :: Hash where
  "mainNetGenesisHash =
     [0x6f, 0xe2, 0x8c, 0x0a, 0xb6, 0xf1, 0xb3, 0x72, 0xc1, 0xa6, 0xa2, 0x46, 0xae, 0x63,
      0xf7, 0x4f, 0x93, 0x1e, 0x83, 0x65, 0xe1, 0x5a, 0x08, 0x9c, 0x68, 0xd6, 0x19, 0x00,
      0x00, 0x00, 0x00, 0x00]"

text \<open>A message with no field set, and an announcement of a channel on another chain.\<close>

definition zeroAnnouncement :: ChannelAnnouncement2 where
  "zeroAnnouncement =
     \<lparr>Signature = [], ChainHash = [], Features = [], ShortChannelID = 0, Capacity = 0,
      NodeID1 = [], NodeID2 = [], BitcoinKey1 = None, BitcoinKey2 = None,
      MerkleRootHash = None, ExtraOpaqueData = []\<rparr>"

definition testnetAnnouncement :: ChannelAnnouncement2 where
  "testnetAnnouncement =
     \<lparr>Signature = [], ChainHash = [0x43, 0x49], Features = [1], ShortChannelID = 5,
      Capacity = 1000, NodeID1 = [2, 7], NodeID2 = [3, 9], BitcoinKey1 = None,
      BitcoinKey2 = Some [2, 8], MerkleRootHash = None, ExtraOpaqueData = []\<rparr>"

section \<open>Evaluation\<close>

lemmas engine_defs = driveMachine_def applyEvents_def NewStateMachine_def NewQueue_def Enqueue_def
  applyEvent_def handleNewEvents_def NotifySubscribers_def emit_def spawn_def emptyWorld_def
  executeDaemonEvent_def sendAndCleanUp_def cleanUpEnv_def

section \<open>Traces and frames\<close>

lemma dispatched_append [simp]: "dispatched (xs @ ys) = dispatched xs @ dispatched ys"
  by (induction xs rule: dispatched.induct) simp_all
lemma enqueued_append [simp]: "enqueued (xs @ ys) = enqueued xs @ enqueued ys"
  by (induction xs rule: enqueued.induct) simp_all
lemma dequeued_append [simp]: "dequeued (xs @ ys) = dequeued xs @ dequeued ys"
  by (induction xs rule: dequeued.induct) simp_all
lemma notified_append [simp]: "notified (xs @ ys) = notified xs @ notified ys"
  by (induction xs rule: notified.induct) simp_all
lemma logged_append [simp]: "logged (xs @ ys) = logged xs @ logged ys"
  by (induction xs rule: logged.induct) simp_all

lemma calls_project:
  "list_all isCall t \<Longrightarrow>
     dispatched t = [] \<and> enqueued t = [] \<and> dequeued t = [] \<and> notified t = [] \<and> logged t = []"
proof (induction t)
  case Nil
  show ?case by simp
next
  case (Cons x t)
  then show ?case by (cases x) simp_all
qed

lemma sendAndCleanUp_frame:
  assumes "sendAndCleanUp ad peer msgs post w = (r, w')"
  shows "subscribers w' = subscribers w \<and> (\<exists>new. trace w' = trace w @ new \<and> list_all isCall new)"
  using assms
  by (auto simp: sendAndCleanUp_def emit_def spawn_def Let_def split: prod.splits option.splits)

lemma dispatch_frame:
  assumes "dispatch ad d w = (r, w')"
  shows "subscribers w' = subscribers w \<and> (\<exists>new. trace w' = trace w @ new \<and> list_all isCall new)"
proof (cases d)
  case (SendMsgEvent peer msgs sendWhen post)
  show ?thesis
  proof (cases sendWhen)
    case None
    with assms SendMsgEvent show ?thesis by (simp add: sendAndCleanUp_frame)
  next
    case (Some pred)
    with assms SendMsgEvent show ?thesis by (auto simp: spawn_def)
  qed
next
  case (BroadcastTxn tx label)
  with assms show ?thesis by (auto simp: emit_def split: prod.splits option.splits)
next
  case (RegisterSpend op pkScript hint post)
  with assms show ?thesis by (auto simp: emit_def spawn_def split: prod.splits sum.splits)
next
  case (RegisterConf txid pkScript nc hint post)
  with assms show ?thesis by (auto simp: emit_def spawn_def Let_def split: prod.splits sum.splits)
next
  case (OtherDaemonEvent name)
  with assms show ?thesis by auto
qed

lemma executeDaemonEvent_frame:
  assumes "executeDaemonEvent ad d w = (r, w')"
  shows "subscribers w' = subscribers w \<and>
         (\<exists>new. trace w' = trace w @ Dispatched d # new \<and> list_all isCall new)"
  using dispatch_frame [of ad d "emit (Dispatched d) w" r w'] assms
  by (auto simp: executeDaemonEvent_def emit_def)

lemma executeDaemonEvents_frame:
  "executeDaemonEvents ad ds w = (r, w') \<Longrightarrow>
     subscribers w' = subscribers w \<and>
     (\<exists>new. trace w' = trace w @ new \<and> enqueued new = [] \<and> dequeued new = [] \<and>
        notified new = [] \<and> logged new = [] \<and> prefix (dispatched new) ds \<and>
        (r = None \<longrightarrow> dispatched new = ds))"
proof (induction ds arbitrary: w)
  case Nil
  then show ?case by simp
next
  case (Cons d ds)
  obtain r1 w1 where step: "executeDaemonEvent ad d w = (r1, w1)"
    by (cases "executeDaemonEvent ad d w")
  from executeDaemonEvent_frame [OF step] obtain n1 where
    f1: "subscribers w1 = subscribers w" "trace w1 = trace w @ Dispatched d # n1" "list_all isCall n1"
    by blast
  note p1 = calls_project [OF f1(3)]
  show ?case
  proof (cases r1)
    case (Some err)
    with Cons.prems step have "r = Some err" "w' = w1" by simp_all
    with f1 p1 show ?thesis by simp
  next
    case None
    with Cons.prems step have rest: "executeDaemonEvents ad ds w1 = (r, w')" by simp
    from Cons.IH [OF rest] obtain n2 where
      f2: "subscribers w' = subscribers w1" "trace w' = trace w1 @ n2" "enqueued n2 = []"
        "dequeued n2 = []" "notified n2 = []" "logged n2 = []" "prefix (dispatched n2) ds"
        "r = None \<longrightarrow> dispatched n2 = ds"
      by blast
    let ?new = "Dispatched d # n1 @ n2"
    have t: "trace w' = trace w @ ?new" using f1 f2 by simp
    have q: "enqueued ?new = []" "dequeued ?new = []" "notified ?new = []" "logged ?new = []"
      using p1 f2 by simp_all
    have d1: "prefix (dispatched ?new) (d # ds)" using p1 f2 by simp
    have d2: "r = None \<longrightarrow> dispatched ?new = d # ds" using p1 f2 by simp
    have s: "subscribers w' = subscribers w" using f1 f2 by simp
    from t q d1 d2 have
      "\<exists>new. trace w' = trace w @ new \<and> enqueued new = [] \<and> dequeued new = [] \<and>
        notified new = [] \<and> logged new = [] \<and> prefix (dispatched new) (d # ds) \<and>
        (r = None \<longrightarrow> dispatched new = d # ds)"
      by (intro exI [of _ ?new]) simp
    with s show ?thesis by simp
  qed
qed

lemma handleNewEvents_frame:
  assumes "handleNewEvents ad q newEvents w = (r, q', w')"
  shows "subscribers w' = subscribers w \<and>
         (\<exists>new. trace w' = trace w @ new \<and> dequeued new = [] \<and> notified new = [] \<and>
            logged new = [] \<and> q' = q @ enqueued new \<and> (r \<noteq> None \<longrightarrow> enqueued new = []))"
proof (cases newEvents)
  case None
  with assms show ?thesis by (simp add: handleNewEvents_def)
next
  case (Some events)
  obtain r1 w1 where ext:
    "(case ExternalEvents events of None \<Rightarrow> (None, w)
      | Some dEvents \<Rightarrow> executeDaemonEvents ad dEvents w) = (r1, w1)"
    by (cases "case ExternalEvents events of None \<Rightarrow> (None, w)
      | Some dEvents \<Rightarrow> executeDaemonEvents ad dEvents w")
  have "subscribers w1 = subscribers w \<and>
        (\<exists>n1. trace w1 = trace w @ n1 \<and> enqueued n1 = [] \<and> dequeued n1 = [] \<and>
           notified n1 = [] \<and> logged n1 = [])"
  proof (cases "ExternalEvents events")
    case None
    with ext show ?thesis by simp
  next
    case (Some dEvents)
    with ext have "executeDaemonEvents ad dEvents w = (r1, w1)" by simp
    from executeDaemonEvents_frame [OF this] show ?thesis by blast
  qed
  then obtain n1 where f1: "subscribers w1 = subscribers w" "trace w1 = trace w @ n1"
    "enqueued n1 = []" "dequeued n1 = []" "notified n1 = []" "logged n1 = []"
    by blast
  show ?thesis
  proof (cases r1)
    case (Some err)
    with assms \<open>newEvents = Some events\<close> ext have "r = Some err" "q' = q" "w' = w1"
      by (simp_all add: handleNewEvents_def)
    with f1 show ?thesis by simp
  next
    case None
    show ?thesis
    proof (cases "InternalEvent events")
      case None
      with assms \<open>newEvents = Some events\<close> ext \<open>r1 = None\<close> have "r = None" "q' = q" "w' = w1"
        by (simp_all add: handleNewEvents_def)
      with f1 show ?thesis by simp
    next
      case (Some inEvent)
      with assms \<open>newEvents = Some events\<close> ext \<open>r1 = None\<close>
      have "r = None" "q' = q @ [inEvent]" "w' = emit (Enqueued inEvent) w1"
        by (simp_all add: handleNewEvents_def Enqueue_def)
      with f1 have "subscribers w' = subscribers w" "trace w' = trace w @ (n1 @ [Enqueued inEvent])"
        "dequeued (n1 @ [Enqueued inEvent]) = []" "notified (n1 @ [Enqueued inEvent]) = []"
        "logged (n1 @ [Enqueued inEvent]) = []" "q' = q @ enqueued (n1 @ [Enqueued inEvent])"
        "r = None"
        by (simp_all add: emit_def)
      then show ?thesis by blast
    qed
  qed
qed

lemma NotifySubscribers_trace: "trace (NotifySubscribers st w) = trace w @ [Notified st]"
  by (simp add: NotifySubscribers_def emit_def)

lemma applyEvent_frame:
  assumes "applyEvent ops s cur q event w = (r, cur', q', w')"
  shows "\<exists>new. trace w' = trace w @ new \<and> dequeued new = [] \<and> logged new = [] \<and>
            q' = q @ enqueued new"
proof (cases "ProcessEvent ops cur event (env s)")
  case (Inl err)
  with assms show ?thesis by (simp add: applyEvent_def)
next
  case (Inr transition)
  obtain r1 q1 w1 where h: "handleNewEvents (daemon s) q (NewEvents transition) w = (r1, q1, w1)"
    by (cases "handleNewEvents (daemon s) q (NewEvents transition) w")
  from handleNewEvents_frame [OF h] obtain n1 where
    f1: "trace w1 = trace w @ n1" "dequeued n1 = []" "logged n1 = []" "q1 = q @ enqueued n1"
    by blast
  show ?thesis
  proof (cases r1)
    case (Some err)
    with assms Inr h have "q' = q1" "w' = w1" by (simp_all add: applyEvent_def)
    with f1 show ?thesis by blast
  next
    case None
    with assms Inr h have "q' = q1" "w' = NotifySubscribers (NextState transition) w1"
      by (auto simp: applyEvent_def)
    with f1 have "trace w' = trace w @ (n1 @ [Notified (NextState transition)])"
      "dequeued (n1 @ [Notified (NextState transition)]) = []"
      "logged (n1 @ [Notified (NextState transition)]) = []"
      "q' = q @ enqueued (n1 @ [Notified (NextState transition)])"
      by (simp_all add: NotifySubscribers_trace)
    then show ?thesis by blast
  qed
qed

lemma applyLoop_fifo:
  "applyLoop n ops s cur q w = Some (cur', r, w') \<Longrightarrow>
     \<exists>new. trace w' = trace w @ new \<and> logged new = [] \<and> prefix (dequeued new) (q @ enqueued new) \<and>
        (r = None \<longrightarrow> dequeued new = q @ enqueued new)"
proof (induction n arbitrary: cur q w)
  case 0
  then show ?case by simp
next
  case (Suc n)
  show ?case
  proof (cases q)
    case Nil
    with Suc.prems have "w' = w" "r = None" by simp_all
    then show ?thesis using Nil by simp
  next
    case (Cons event q1)
    obtain r1 cur1 q2 w1 where
      st: "applyEvent ops s cur q1 event (emit (Dequeued event) w) = (r1, cur1, q2, w1)"
      by (cases "applyEvent ops s cur q1 event (emit (Dequeued event) w)")
    from applyEvent_frame [OF st] obtain n1 where
      f1: "trace w1 = trace w @ Dequeued event # n1" "dequeued n1 = []" "logged n1 = []"
        "q2 = q1 @ enqueued n1"
      by (auto simp: emit_def)
    show ?thesis
    proof (cases r1)
      case (Some err)
      with Suc.prems Cons st have "w' = w1" "r = Some err" by simp_all
      with f1 Cons have "trace w' = trace w @ (Dequeued event # n1)"
        "logged (Dequeued event # n1) = []"
        "prefix (dequeued (Dequeued event # n1)) (q @ enqueued (Dequeued event # n1))"
        "r \<noteq> None"
        by simp_all
      then show ?thesis by blast
    next
      case None
      with Suc.prems Cons st have "applyLoop n ops s cur1 q2 w1 = Some (cur', r, w')" by simp
      from Suc.IH [OF this] obtain n2 where
        f2: "trace w' = trace w1 @ n2" "logged n2 = []" "prefix (dequeued n2) (q2 @ enqueued n2)"
          "r = None \<longrightarrow> dequeued n2 = q2 @ enqueued n2"
        by blast
      let ?new = "Dequeued event # n1 @ n2"
      have "trace w' = trace w @ ?new" "logged ?new = []"
        "prefix (dequeued ?new) (q @ enqueued ?new)"
        "r = None \<longrightarrow> dequeued ?new = q @ enqueued ?new"
        using f1 f2 Cons by simp_all
      then show ?thesis by blast
    qed
  qed
qed

lemma deliver_headed: "buf \<noteq> [] \<Longrightarrow> deliver st buf \<noteq> [] \<and> hd (deliver st buf) = hd buf"
  by (simp add: deliver_def)

lemma deliver_empty: "deliver st [] = [st]"
  by (simp add: deliver_def subscriberBufferSize_def)

lemma NotifySubscribers_headed:
  "headed st0 w \<Longrightarrow> headed st0 (NotifySubscribers st w)"
  by (simp add: headed_def NotifySubscribers_def emit_def list_all_iff deliver_headed)

lemma NotifySubscribers_length:
  "length (subscribers (NotifySubscribers st w)) = length (subscribers w)"
  by (simp add: NotifySubscribers_def emit_def)

lemma NotifySubscribers_first:
  "list_all (\<lambda>buf. buf = []) (subscribers w) \<Longrightarrow> headed st (NotifySubscribers st w)"
  by (auto simp: headed_def NotifySubscribers_def emit_def list_all_iff deliver_empty)

lemma applyEvent_subscribers:
  assumes "applyEvent ops s cur q event w = (r, cur', q', w')"
  shows "length (subscribers w') = length (subscribers w) \<and> (headed st0 w \<longrightarrow> headed st0 w')"
proof (cases "ProcessEvent ops cur event (env s)")
  case (Inl err)
  with assms show ?thesis by (simp add: applyEvent_def)
next
  case (Inr transition)
  obtain r1 q1 w1 where h: "handleNewEvents (daemon s) q (NewEvents transition) w = (r1, q1, w1)"
    by (cases "handleNewEvents (daemon s) q (NewEvents transition) w")
  from handleNewEvents_frame [OF h] have f: "subscribers w1 = subscribers w" by blast
  show ?thesis
  proof (cases r1)
    case (Some err)
    with assms Inr h have "w' = w1" by (simp add: applyEvent_def)
    with f show ?thesis by (simp add: headed_def)
  next
    case None
    with assms Inr h have "w' = NotifySubscribers (NextState transition) w1"
      by (auto simp: applyEvent_def)
    moreover have "headed st0 w \<longrightarrow> headed st0 w1" using f by (simp add: headed_def)
    ultimately show ?thesis using f
      by (simp add: NotifySubscribers_headed NotifySubscribers_length)
  qed
qed

lemma applyLoop_subscribers:
  "applyLoop n ops s cur q w = Some (cur', r, w') \<Longrightarrow>
     length (subscribers w') = length (subscribers w) \<and> (headed st0 w \<longrightarrow> headed st0 w')"
proof (induction n arbitrary: cur q w)
  case 0
  then show ?case by simp
next
  case (Suc n)
  show ?case
  proof (cases q)
    case Nil
    with Suc.prems show ?thesis by simp
  next
    case (Cons event q1)
    obtain r1 cur1 q2 w1 where
      st: "applyEvent ops s cur q1 event (emit (Dequeued event) w) = (r1, cur1, q2, w1)"
      by (cases "applyEvent ops s cur q1 event (emit (Dequeued event) w)")
    from applyEvent_subscribers [OF st, of st0]
    have f1: "length (subscribers w1) = length (subscribers w)" "headed st0 w \<longrightarrow> headed st0 w1"
      by (simp_all add: emit_def headed_def)
    show ?thesis
    proof (cases r1)
      case (Some err)
      with Suc.prems Cons st have "w' = w1" by simp
      with f1 show ?thesis by simp
    next
      case None
      with Suc.prems Cons st have "applyLoop n ops s cur1 q2 w1 = Some (cur', r, w')" by simp
      from Suc.IH [OF this] f1 show ?thesis by simp
    qed
  qed
qed

lemma cleanUpEnv_frame:
  "subscribers (cleanUpEnv ops s w) = subscribers w \<and>
   (\<exists>new. trace (cleanUpEnv ops s w) = trace w @ new \<and> notified new = [])"
  by (auto simp: cleanUpEnv_def emit_def split: option.splits)

lemma driveLoop_frame:
  "driveLoop n ops s cur sels w = Some (dr, w') \<Longrightarrow>
     length (subscribers w') = length (subscribers w) \<and> (headed st0 w \<longrightarrow> headed st0 w') \<and>
     (\<exists>new. trace w' = trace w @ new)"
proof (induction sels arbitrary: cur w)
  case Nil
  then show ?case by simp
next
  case (Cons sel sels)
  show ?case
  proof (cases sel)
    case (NewEvent newEvent)
    show ?thesis
    proof (cases "applyEvents n ops s newEvent w")
      case None
      with Cons.prems NewEvent show ?thesis by simp
    next
      case (Some res)
      obtain newState r w1 where res: "res = (newState, r, w1)" by (cases res)
      with Some have ap: "applyLoop n ops s (currentState s) (NewQueue newEvent) w = Some (newState, r, w1)"
        by (simp add: applyEvents_def)
      from applyLoop_subscribers [OF ap, of st0] applyLoop_fifo [OF ap] obtain n1 where
        f1: "length (subscribers w1) = length (subscribers w)" "headed st0 w \<longrightarrow> headed st0 w1"
          "trace w1 = trace w @ n1"
        by blast
      show ?thesis
      proof (cases r)
        case (Some err)
        with Cons.prems NewEvent \<open>applyEvents n ops s newEvent w = Some res\<close> res
        have "driveLoop n ops s cur sels (emit (Logged (UnableToApplyEvent err)) w1) = Some (dr, w')"
          by simp
        from Cons.IH [OF this] f1 show ?thesis by (auto simp: emit_def headed_def)
      next
        case None
        let ?w2 = "if IsTerminal ops newState then cleanUpEnv ops s w1 else w1"
        from None Cons.prems NewEvent \<open>applyEvents n ops s newEvent w = Some res\<close> res
        have "driveLoop n ops s newState sels ?w2 = Some (dr, w')" by simp
        from Cons.IH [OF this] have
          i: "length (subscribers w') = length (subscribers ?w2)" "headed st0 ?w2 \<longrightarrow> headed st0 w'"
            "\<exists>new. trace w' = trace ?w2 @ new"
          by simp_all
        have c: "subscribers ?w2 = subscribers w1" "\<exists>new. trace ?w2 = trace w1 @ new"
          using cleanUpEnv_frame [of ops s w1] by auto
        from i c f1 show ?thesis by (auto simp: headed_def)
      qed
    qed
  next
    case (StateQuery b)
    show ?thesis
    proof (cases b)
      case True
      with Cons.prems StateQuery have "driveLoop n ops s cur sels (emit (Replied cur) w) = Some (dr, w')"
        by simp
      from Cons.IH [OF this] show ?thesis by (auto simp: emit_def headed_def)
    next
      case False
      with Cons.prems StateQuery show ?thesis by simp
    qed
  next
    case QuitClosed
    with Cons.prems show ?thesis by simp
  qed
qed

section \<open>The dispatcher\<close>

text \<open>
  Claim C8. For a RegisterConf daemon event the dispatcher calls
  RegisterConfirmationsNtfn once, with the confirmation count \<open>n\<close> when NumConfs is
  \<open>Some n\<close> and with the confirmation count 1 when NumConfs is absent: the call is the
  one effect that follows the entry of the dispatcher in the trace, and the adapter's
  state is the one that call leaves.
\<close>

theorem registerConf_numConfs:
  "trace (snd (executeDaemonEvent ad (RegisterConf txid pkScript (Some n) hint post) w)) =
     trace w @ [Dispatched (RegisterConf txid pkScript (Some n) hint post),
                RegisterConfirmationsNtfnCall txid pkScript n hint]
   \<and> daemonState (snd (executeDaemonEvent ad (RegisterConf txid pkScript (Some n) hint post) w)) =
       snd (RegisterConfirmationsNtfn ad (daemonState w) txid pkScript n hint)
   \<and> trace (snd (executeDaemonEvent ad (RegisterConf txid pkScript None hint post) w)) =
     trace w @ [Dispatched (RegisterConf txid pkScript None hint post),
                RegisterConfirmationsNtfnCall txid pkScript 1 hint]
   \<and> daemonState (snd (executeDaemonEvent ad (RegisterConf txid pkScript None hint post) w)) =
       snd (RegisterConfirmationsNtfn ad (daemonState w) txid pkScript 1 hint)"
  by (simp add: executeDaemonEvent_def emit_def spawn_def split: prod.split sum.split)

text \<open>
  Claim C2. The claim says that a RegisterConf event whose registration succeeds is
  dispatched without an error. In the code it is not: with an adapter whose registration
  succeeds (it returns the handle 7), \<open>executeDaemonEvent\<close> registers, starts the
  goroutine that waits for the confirmation, and returns the error for an unknown daemon
  event.
\<close>

theorem registerConf_success_returns_unknown:
  "executeDaemonEvent okAdapters (RegisterConf [] [] None 0 (None :: devent option))
       (emptyWorld :: (dstate, devent, unit) world) =
     (Some UnknownDaemonEvent,
      emptyWorld\<lparr>trace := [Dispatched (RegisterConf [] [] None 0 None),
                            RegisterConfirmationsNtfnCall [] [] 1 0],
                  goroutines := [AwaitConf 7 None]\<rparr>)"
  by (simp add: engine_defs okAdapters_def)

section \<open>The driver and the current state\<close>

text \<open>
  Claim C1. The claim says that the engine run for an event starts from the state the
  previous event has led to, the state a query is answered with. In the code the second
  run starts from the initial state again: the counting machine, started at 0 and sent
  two events with a query after each, processes the second event in state 0 as it did the
  first, publishes state 1 a second time, and answers both queries with 1, not with 1 and
  then 2.
\<close>

theorem second_run_restarts_from_initial:
  "driveMachine 2 counterOps (NewStateMachine okAdapters 0 ())
      [NewEvent (), StateQuery True, NewEvent (), StateQuery True] emptyWorld =
   Some (Waiting 1,
     emptyWorld\<lparr>trace := [Notified 0, Dequeued (), Notified 1, Replied 1,
                           Dequeued (), Notified 1, Replied 1]\<rparr>)
   \<and> replied [Notified 0, Dequeued (), Notified 1, Replied 1,
               Dequeued (), Notified 1, Replied 1 :: (nat, unit) effect] = [1, 1]
   \<and> applyEvents 2 counterOps (NewStateMachine okAdapters 0 ()) ()
        (emptyWorld\<lparr>trace := [Notified 0, Dequeued (), Notified 1, Replied 1]\<rparr>) =
     Some (1, None,
       emptyWorld\<lparr>trace := [Notified 0, Dequeued (), Notified 1, Replied 1,
                             Dequeued (), Notified 1]\<rparr>)"
  by (simp add: engine_defs counterOps_def eval_nat_numeral)

text \<open>
  Claim C3. The claim says that CleanUp is called at most once in the life of an
  executor. In the code it is called after every event whose chain ends in a terminal
  state: the machine started in C and sent E2 twice ends both chains in the terminal
  state D, and CleanUp is called twice.
\<close>

theorem cleanUp_called_twice:
  "driveMachine 2 demoOps (NewStateMachine okAdapters C ()) [NewEvent E2, NewEvent E2] emptyWorld =
   Some (Waiting D,
     emptyWorld\<lparr>trace := [Notified C, Dequeued E2, Notified D, CleanUpCall,
                           Dequeued E2, Notified D, CleanUpCall]\<rparr>)
   \<and> cleanUps [Notified C, Dequeued E2, Notified D, CleanUpCall,
               Dequeued E2, Notified D, CleanUpCall :: (dstate, devent) effect] = 2"
  by (simp add: engine_defs demoOps_def eval_nat_numeral)

section \<open>The transition engine\<close>

text \<open>
  Claim C4. When the engine takes an event from its queue and ProcessEvent returns an
  error, or the dispatcher returns an error for one of the daemon events the transition
  has emitted, the engine returns at once, with the state it had before this step (the
  state as the earlier steps of the chain have left it) and with the error. For the
  failing step nothing is put on the queue, the state is not replaced, and nothing is
  published: the new part of the trace holds neither an enqueue nor a notification, and
  the buffers of the subscribers are as they were.
\<close>

theorem engine_aborts_on_error:
  "(ProcessEvent ops cur event (env s) = Inl err \<longrightarrow>
      applyLoop (Suc n) ops s cur (event # q) w = Some (cur, Some err, emit (Dequeued event) w)
      \<and> trace (emit (Dequeued event) w) = trace w @ [Dequeued event]
      \<and> subscribers (emit (Dequeued event) w) = subscribers w)
   \<and> (ProcessEvent ops cur event (env s) = Inr tr \<and> NewEvents tr = Some evs
        \<and> ExternalEvents evs = Some ds
        \<and> executeDaemonEvents (daemon s) ds (emit (Dequeued event) w) = (Some err, w') \<longrightarrow>
      applyLoop (Suc n) ops s cur (event # q) w = Some (cur, Some err, w')
      \<and> subscribers w' = subscribers w
      \<and> (\<exists>new. trace w' = trace w @ Dequeued event # new
            \<and> enqueued new = [] \<and> notified new = []))"
proof (intro conjI impI)
  assume "ProcessEvent ops cur event (env s) = Inl err"
  then show "applyLoop (Suc n) ops s cur (event # q) w = Some (cur, Some err, emit (Dequeued event) w)"
    by (simp add: applyEvent_def)
next
  show "trace (emit (Dequeued event) w) = trace w @ [Dequeued event]" by (simp add: emit_def)
next
  show "subscribers (emit (Dequeued event) w) = subscribers w" by (simp add: emit_def)
next
  assume h: "ProcessEvent ops cur event (env s) = Inr tr \<and> NewEvents tr = Some evs
        \<and> ExternalEvents evs = Some ds
        \<and> executeDaemonEvents (daemon s) ds (emit (Dequeued event) w) = (Some err, w')"
  then have "handleNewEvents (daemon s) q (NewEvents tr) (emit (Dequeued event) w) = (Some err, q, w')"
    by (simp add: handleNewEvents_def)
  with h have "applyEvent ops s cur q event (emit (Dequeued event) w) = (Some err, cur, q, w')"
    by (simp add: applyEvent_def)
  then show "applyLoop (Suc n) ops s cur (event # q) w = Some (cur, Some err, w')"
    by simp
next
  assume h: "ProcessEvent ops cur event (env s) = Inr tr \<and> NewEvents tr = Some evs
        \<and> ExternalEvents evs = Some ds
        \<and> executeDaemonEvents (daemon s) ds (emit (Dequeued event) w) = (Some err, w')"
  then have "executeDaemonEvents (daemon s) ds (emit (Dequeued event) w) = (Some err, w')" by simp
  from executeDaemonEvents_frame [OF this] show "subscribers w' = subscribers w"
    by (simp add: emit_def)
next
  assume h: "ProcessEvent ops cur event (env s) = Inr tr \<and> NewEvents tr = Some evs
        \<and> ExternalEvents evs = Some ds
        \<and> executeDaemonEvents (daemon s) ds (emit (Dequeued event) w) = (Some err, w')"
  then have "executeDaemonEvents (daemon s) ds (emit (Dequeued event) w) = (Some err, w')" by simp
  from executeDaemonEvents_frame [OF this] obtain new where
    "trace w' = trace (emit (Dequeued event) w) @ new" "enqueued new = []" "notified new = []"
    by blast
  then have "trace w' = trace w @ Dequeued event # new \<and> enqueued new = [] \<and> notified new = []"
    by (simp add: emit_def)
  then show "\<exists>new. trace w' = trace w @ Dequeued event # new \<and> enqueued new = [] \<and> notified new = []"
    by blast
qed

theorem engine_aborts_on_error_witness:
  "ProcessEvent demoOps C E0 (env (NewStateMachine okAdapters B ())) = Inl (ExternalError ''unexpected event'')
   \<and> applyLoop (Suc 0) demoOps (NewStateMachine okAdapters B ()) C [E0]
        (emptyWorld\<lparr>trace := [Dequeued E0, Enqueued E0, Notified C]\<rparr>) =
       Some (C, Some (ExternalError ''unexpected event''),
          emptyWorld\<lparr>trace := [Dequeued E0, Enqueued E0, Notified C, Dequeued E0]\<rparr>)
   \<and> executeDaemonEvents (daemon (NewStateMachine downAdapters A ()))
        [BroadcastTxn [1] ''x'', SendMsgEvent [2] [[3]] None None]
        (emit (Dequeued E0) emptyWorld) =
       (Some (UnableToBroadcastTxn (ExternalError ''down'')),
        emptyWorld\<lparr>trace := [Dequeued E0, Dispatched (BroadcastTxn [1] ''x''),
                              BroadcastTransactionCall [1] ''x'']\<rparr>
          :: (dstate, devent, unit) world)
   \<and> applyLoop (Suc 0) demoOps (NewStateMachine downAdapters A ()) A [E0] emptyWorld =
       Some (A, Some (UnableToBroadcastTxn (ExternalError ''down'')),
          emptyWorld\<lparr>trace := [Dequeued E0, Dispatched (BroadcastTxn [1] ''x''),
                              BroadcastTransactionCall [1] ''x'']\<rparr>)"
proof -
  let ?s1 = "NewStateMachine okAdapters B () :: (dstate, devent, unit, unit) StateMachine"
  let ?w1 = "emptyWorld\<lparr>trace := [Dequeued E0, Enqueued E0, Notified C]\<rparr> :: (dstate, devent, unit) world"
  let ?s2 = "NewStateMachine downAdapters A () :: (dstate, devent, unit, unit) StateMachine"
  let ?ds = "[BroadcastTxn [1] ''x'', SendMsgEvent [2] [[3]] None None] :: devent DaemonEvent list"
  let ?tr = "\<lparr>NextState = B, NewEvents = Some \<lparr>InternalEvent = Some E1, ExternalEvents = Some ?ds\<rparr>\<rparr>"
  let ?w2 = "emptyWorld\<lparr>trace := [Dequeued E0, Dispatched (BroadcastTxn [1] ''x''),
                              BroadcastTransactionCall [1] ''x'']\<rparr> :: (dstate, devent, unit) world"
  have a: "ProcessEvent demoOps C E0 (env ?s1) = Inl (ExternalError ''unexpected event'')"
    by (simp add: demoOps_def)
  have b: "ProcessEvent demoOps A E0 (env ?s2) = Inr ?tr" by (simp add: demoOps_def)
  have c: "executeDaemonEvents (daemon ?s2) ?ds (emit (Dequeued E0) emptyWorld) =
     (Some (UnableToBroadcastTxn (ExternalError ''down'')), ?w2)"
    by (simp add: engine_defs downAdapters_def)
  from a engine_aborts_on_error [where ops = demoOps and s = ?s1 and cur = C and event = E0
      and err = "ExternalError ''unexpected event''" and n = 0 and q = "[]" and w = ?w1]
  have p1: "applyLoop (Suc 0) demoOps ?s1 C [E0] ?w1 =
       Some (C, Some (ExternalError ''unexpected event''), emit (Dequeued E0) ?w1)"
    by blast
  from b c engine_aborts_on_error [where ops = demoOps and s = ?s2 and cur = A and event = E0
      and err = "UnableToBroadcastTxn (ExternalError ''down'')" and n = 0 and q = "[]"
      and w = emptyWorld and tr = ?tr and ds = ?ds and w' = ?w2
      and evs = "\<lparr>InternalEvent = Some E1, ExternalEvents = Some ?ds\<rparr>"]
  have p2: "applyLoop (Suc 0) demoOps ?s2 A [E0] emptyWorld =
       Some (A, Some (UnableToBroadcastTxn (ExternalError ''down'')), ?w2)"
    by simp
  from a c p1 p2 show ?thesis by (simp add: emit_def emptyWorld_def)
qed

text \<open>
  Claim C5. For a transition that emits an external event set and an internal event, the
  engine dispatches the external events in their order and only then puts the internal
  event on the queue: when the step succeeds, the new part of the trace is the dispatch
  of all the daemon events, in the declared order and with no enqueue among them, then
  the enqueue of the internal event at the tail of the queue, then the notification; when
  a dispatch fails, a prefix of the daemon events has been dispatched and nothing is
  enqueued. The queue is first in, first out: over a run of the engine, the events taken
  from the queue are, in order, a prefix of the events the queue started with followed
  by the events enqueued, and all of them when the run ends without an error.
\<close>

theorem external_before_internal:
  "(ProcessEvent ops cur event (env s) = Inr tr \<and> NewEvents tr = Some evs
      \<and> ExternalEvents evs = Some ds \<and> InternalEvent evs = Some ie
      \<and> applyEvent ops s cur q event w = (r, cur', q', w') \<longrightarrow>
      (\<exists>pre. prefix (dispatched pre) ds \<and> enqueued pre = []
         \<and> (case r of
              None \<Rightarrow> dispatched pre = ds \<and> q' = q @ [ie]
                \<and> trace w' = trace w @ pre @ [Enqueued ie, Notified (NextState tr)]
            | Some err \<Rightarrow> q' = q \<and> trace w' = trace w @ pre)))
   \<and> (applyLoop n ops s cur q w = Some (st, r, w') \<longrightarrow>
      (\<exists>new. trace w' = trace w @ new \<and> prefix (dequeued new) (q @ enqueued new)
         \<and> (r = None \<longrightarrow> dequeued new = q @ enqueued new)))"
proof (intro conjI impI)
  assume h: "ProcessEvent ops cur event (env s) = Inr tr \<and> NewEvents tr = Some evs
      \<and> ExternalEvents evs = Some ds \<and> InternalEvent evs = Some ie
      \<and> applyEvent ops s cur q event w = (r, cur', q', w')"
  obtain r1 wd where ex: "executeDaemonEvents (daemon s) ds w = (r1, wd)"
    by (cases "executeDaemonEvents (daemon s) ds w")
  from executeDaemonEvents_frame [OF ex] obtain pre where
    f: "trace wd = trace w @ pre" "enqueued pre = []" "prefix (dispatched pre) ds"
      "r1 = None \<longrightarrow> dispatched pre = ds"
    by blast
  show "\<exists>pre. prefix (dispatched pre) ds \<and> enqueued pre = []
         \<and> (case r of
              None \<Rightarrow> dispatched pre = ds \<and> q' = q @ [ie]
                \<and> trace w' = trace w @ pre @ [Enqueued ie, Notified (NextState tr)]
            | Some err \<Rightarrow> q' = q \<and> trace w' = trace w @ pre)"
  proof (cases r1)
    case (Some err)
    with h ex have "handleNewEvents (daemon s) q (NewEvents tr) w = (Some err, q, wd)"
      by (simp add: handleNewEvents_def)
    with h have "r = Some err" "q' = q" "w' = wd" by (auto simp: applyEvent_def)
    with f show ?thesis by (intro exI [of _ pre]) simp
  next
    case None
    with h ex have "handleNewEvents (daemon s) q (NewEvents tr) w =
        (None, q @ [ie], emit (Enqueued ie) wd)"
      by (simp add: handleNewEvents_def Enqueue_def)
    with h have "r = None" "q' = q @ [ie]"
      "w' = NotifySubscribers (NextState tr) (emit (Enqueued ie) wd)"
      by (auto simp: applyEvent_def)
    with f None show ?thesis
      by (intro exI [of _ pre]) (simp add: NotifySubscribers_trace emit_def)
  qed
next
  assume "applyLoop n ops s cur q w = Some (st, r, w')"
  from applyLoop_fifo [OF this]
  show "\<exists>new. trace w' = trace w @ new \<and> prefix (dequeued new) (q @ enqueued new)
         \<and> (r = None \<longrightarrow> dequeued new = q @ enqueued new)"
    by blast
qed

theorem external_before_internal_witness:
  "applyEvent demoOps (NewStateMachine okAdapters A ()) A [] E0 emptyWorld =
     (None, B, [E1],
      emptyWorld\<lparr>trace := [Dispatched (BroadcastTxn [1] ''x''), BroadcastTransactionCall [1] ''x'',
                    Dispatched (SendMsgEvent [2] [[3]] None None), SendMessagesCall [2] [[3]],
                    Enqueued E1, Notified B]\<rparr>)
   \<and> (\<exists>pre. dispatched pre = [BroadcastTxn [1] ''x'', SendMsgEvent [2] [[3]] None None]
         \<and> enqueued pre = []
         \<and> [Dispatched (BroadcastTxn [1] ''x''), BroadcastTransactionCall [1] ''x'',
             Dispatched (SendMsgEvent [2] [[3]] None None), SendMessagesCall [2] [[3]],
             Enqueued E1, Notified B] = pre @ [Enqueued E1, Notified (B :: dstate)])
   \<and> applyLoop 4 demoOps (NewStateMachine okAdapters A ()) A [E0] emptyWorld =
     Some (D, None,
      emptyWorld\<lparr>trace := [Dequeued E0,
                    Dispatched (BroadcastTxn [1] ''x''), BroadcastTransactionCall [1] ''x'',
                    Dispatched (SendMsgEvent [2] [[3]] None None), SendMessagesCall [2] [[3]],
                    Enqueued E1, Notified B, Dequeued E1, Enqueued E2, Notified C,
                    Dequeued E2, Notified D]\<rparr>)
   \<and> (\<exists>new :: (dstate, devent) effect list. new = [Dequeued E0,
                    Dispatched (BroadcastTxn [1] ''x''), BroadcastTransactionCall [1] ''x'',
                    Dispatched (SendMsgEvent [2] [[3]] None None), SendMessagesCall [2] [[3]],
                    Enqueued E1, Notified B, Dequeued E1, Enqueued E2, Notified C,
                    Dequeued E2, Notified D]
         \<and> dequeued new = [E0] @ enqueued new)"
proof -
  let ?s = "NewStateMachine okAdapters A () :: (dstate, devent, unit, unit) StateMachine"
  let ?ds = "[BroadcastTxn [1] ''x'', SendMsgEvent [2] [[3]] None None] :: devent DaemonEvent list"
  let ?evs = "\<lparr>InternalEvent = Some E1, ExternalEvents = Some ?ds\<rparr>"
  let ?tr = "\<lparr>NextState = B, NewEvents = Some ?evs\<rparr>"
  let ?t1 = "[Dispatched (BroadcastTxn [1] ''x''), BroadcastTransactionCall [1] ''x'',
                    Dispatched (SendMsgEvent [2] [[3]] None None), SendMessagesCall [2] [[3]],
                    Enqueued E1, Notified B] :: (dstate, devent) effect list"
  let ?t2 = "[Dequeued E0,
                    Dispatched (BroadcastTxn [1] ''x''), BroadcastTransactionCall [1] ''x'',
                    Dispatched (SendMsgEvent [2] [[3]] None None), SendMessagesCall [2] [[3]],
                    Enqueued E1, Notified B, Dequeued E1, Enqueued E2, Notified C,
                    Dequeued E2, Notified D] :: (dstate, devent) effect list"
  have a: "ProcessEvent demoOps A E0 (env ?s) = Inr ?tr" by (simp add: demoOps_def)
  have b: "applyEvent demoOps ?s A [] E0 emptyWorld = (None, B, [E1], emptyWorld\<lparr>trace := ?t1\<rparr>)"
    by (simp add: engine_defs demoOps_def okAdapters_def)
  have c: "applyLoop 4 demoOps ?s A [E0] emptyWorld = Some (D, None, emptyWorld\<lparr>trace := ?t2\<rparr>)"
    by (simp add: engine_defs demoOps_def okAdapters_def eval_nat_numeral)
  note th = external_before_internal [where ops = demoOps and s = ?s and cur = A and event = E0
      and tr = ?tr and evs = ?evs and ds = ?ds and ie = E1 and q = "[]" and w = emptyWorld
      and r = None and cur' = B and q' = "[E1]" and w' = "emptyWorld\<lparr>trace := ?t1\<rparr>"]
  from a b th have p1: "\<exists>pre. dispatched pre = ?ds \<and> enqueued pre = []
      \<and> ?t1 = pre @ [Enqueued E1, Notified (B :: dstate)]"
    by (simp add: emptyWorld_def)
  note th2 = external_before_internal [where ops = demoOps and s = ?s and cur = A and n = 4
      and q = "[E0]" and w = emptyWorld and st = D and r = None
      and w' = "emptyWorld\<lparr>trace := ?t2\<rparr>"]
  from c th2 have p2: "\<exists>new. ?t2 = new \<and> dequeued new = [E0] @ enqueued new"
    by (simp add: emptyWorld_def)
  from b p1 c p2 show ?thesis by simp
qed

section \<open>Start of the driver\<close>

text \<open>
  Claim C6. The first thing the driver does is to publish the initial state: with no
  input taken yet it waits in its \<open>select\<close> with the initial state published; whatever
  inputs it takes afterwards, the first new effect of the trace is the notification of
  the initial state, so that it comes before the notification of every transition; and
  every subscriber registered before the start (its buffer is empty) stays registered and
  has the initial state as the first state delivered to it.
\<close>

theorem initial_state_published_first:
  "driveMachine n ops s [] w = Some (Waiting (currentState s), NotifySubscribers (currentState s) w)
   \<and> (driveMachine n ops s sels w = Some (dr, w') \<longrightarrow>
        (\<exists>rest. trace w' = trace w @ Notified (currentState s) # rest))
   \<and> (driveMachine n ops s sels w = Some (dr, w') \<and> list_all (\<lambda>buf. buf = []) (subscribers w) \<longrightarrow>
        length (subscribers w') = length (subscribers w)
        \<and> list_all (\<lambda>buf. buf \<noteq> [] \<and> hd buf = currentState s) (subscribers w'))"
proof (intro conjI impI)
  show "driveMachine n ops s [] w = Some (Waiting (currentState s), NotifySubscribers (currentState s) w)"
    by (simp add: driveMachine_def)
next
  assume "driveMachine n ops s sels w = Some (dr, w')"
  then have "driveLoop n ops s (currentState s) sels (NotifySubscribers (currentState s) w) = Some (dr, w')"
    by (simp add: driveMachine_def)
  from driveLoop_frame [OF this] obtain new where
    "trace w' = trace (NotifySubscribers (currentState s) w) @ new"
    by blast
  then have "trace w' = trace w @ Notified (currentState s) # new"
    by (simp add: NotifySubscribers_trace)
  then show "\<exists>rest. trace w' = trace w @ Notified (currentState s) # rest" by blast
next
  assume h: "driveMachine n ops s sels w = Some (dr, w') \<and> list_all (\<lambda>buf. buf = []) (subscribers w)"
  then have "driveLoop n ops s (currentState s) sels (NotifySubscribers (currentState s) w) = Some (dr, w')"
    by (simp add: driveMachine_def)
  from driveLoop_frame [OF this, of "currentState s"]
  show "length (subscribers w') = length (subscribers w)"
    by (simp add: NotifySubscribers_length)
next
  assume h: "driveMachine n ops s sels w = Some (dr, w') \<and> list_all (\<lambda>buf. buf = []) (subscribers w)"
  then have "driveLoop n ops s (currentState s) sels (NotifySubscribers (currentState s) w) = Some (dr, w')"
    by (simp add: driveMachine_def)
  from driveLoop_frame [OF this, of "currentState s"] h
  have "headed (currentState s) w'" by (simp add: NotifySubscribers_first)
  then show "list_all (\<lambda>buf. buf \<noteq> [] \<and> hd buf = currentState s) (subscribers w')"
    by (simp add: headed_def)
qed

theorem initial_state_published_first_witness:
  "list_all (\<lambda>buf. buf = [])
      (subscribers (RegisterStateEvents (RegisterStateEvents (emptyWorld :: (dstate, devent, unit) world))))
   \<and> driveMachine 4 demoOps (NewStateMachine okAdapters A ()) [NewEvent E0]
        (RegisterStateEvents (RegisterStateEvents emptyWorld)) =
      Some (Waiting D,
        emptyWorld\<lparr>trace := [Notified A, Dequeued E0,
                    Dispatched (BroadcastTxn [1] ''x''), BroadcastTransactionCall [1] ''x'',
                    Dispatched (SendMsgEvent [2] [[3]] None None), SendMessagesCall [2] [[3]],
                    Enqueued E1, Notified B, Dequeued E1, Enqueued E2, Notified C,
                    Dequeued E2, Notified D, CleanUpCall],
                  subscribers := [[A, B, C, D], [A, B, C, D]]\<rparr>)
   \<and> list_all (\<lambda>buf. buf \<noteq> [] \<and> hd buf = A) [[A, B, C, D], [A, B, C, D]]"
proof -
  let ?s = "NewStateMachine okAdapters A () :: (dstate, devent, unit, unit) StateMachine"
  let ?w = "RegisterStateEvents (RegisterStateEvents emptyWorld) :: (dstate, devent, unit) world"
  let ?w' = "emptyWorld\<lparr>trace := [Notified A, Dequeued E0,
                    Dispatched (BroadcastTxn [1] ''x''), BroadcastTransactionCall [1] ''x'',
                    Dispatched (SendMsgEvent [2] [[3]] None None), SendMessagesCall [2] [[3]],
                    Enqueued E1, Notified B, Dequeued E1, Enqueued E2, Notified C,
                    Dequeued E2, Notified D, CleanUpCall],
                  subscribers := [[A, B, C, D], [A, B, C, D]]\<rparr> :: (dstate, devent, unit) world"
  have a: "list_all (\<lambda>buf. buf = []) (subscribers ?w)"
    by (simp add: RegisterStateEvents_def emptyWorld_def)
  have b: "driveMachine 4 demoOps ?s [NewEvent E0] ?w = Some (Waiting D, ?w')"
    by (simp add: engine_defs demoOps_def okAdapters_def RegisterStateEvents_def deliver_def
        subscriberBufferSize_def eval_nat_numeral)
  from a b initial_state_published_first [where n = 4 and ops = demoOps and s = ?s
      and sels = "[NewEvent E0]" and w = ?w and dr = "Waiting D" and w' = ?w']
  have "list_all (\<lambda>buf. buf \<noteq> [] \<and> hd buf = currentState ?s) (subscribers ?w')" by blast
  then have "list_all (\<lambda>buf. buf \<noteq> [] \<and> hd buf = A) [[A, B, C, D], [A, B, C, D]]"
    by (simp add: NewStateMachine_def emptyWorld_def)
  with a b show ?thesis by blast
qed

section \<open>Queries of the current state\<close>



section \<open>The goroutine of a conditional send\<close>

lemma poll_until:
  "(\<forall>j<k. \<not> pred (i + j)) \<Longrightarrow> pred (i + k) \<Longrightarrow>
     runWaiter ad (PollSendWhen peer msgs pred post i) (replicate (Suc k) Fired @ later) w =
       (None, [], snd (sendAndCleanUp ad peer msgs post w))"
proof (induction k arbitrary: i)
  case 0
  then show ?case by simp
next
  case (Suc k)
  from Suc.prems(1) have n0: "\<not> pred i" by force
  have "\<forall>j<k. \<not> pred (Suc i + j)"
  proof (intro allI impI)
    fix j assume "j < k"
    then have "Suc j < Suc k" by simp
    with Suc.prems(1) have "\<not> pred (i + Suc j)" by blast
    then show "\<not> pred (Suc i + j)" by simp
  qed
  moreover from Suc.prems(2) have "pred (Suc i + k)" by simp
  ultimately have "runWaiter ad (PollSendWhen peer msgs pred post (Suc i))
       (replicate (Suc k) Fired @ later) w = (None, [], snd (sendAndCleanUp ad peer msgs post w))"
    by (rule Suc.IH)
  with n0 show ?case by simp
qed

text \<open>
  Claim C9. For a SendMsgEvent with a SendWhen predicate the dispatcher returns no error
  and only starts the polling goroutine. When the predicate holds at a poll and the
  adapter's SendMessages fails, the goroutine returns: it puts no event on the intake
  channel, starts no goroutine for the post-send event, writes nothing to the log, and
  its result carries no error; the only effect is the call of the adapter. So it is for
  the goroutine run from its start, when the predicate first holds at the poll \<open>k\<close>,
  whatever wakes it later.
\<close>

theorem sendWhen_send_error_discarded:
  "executeDaemonEvent ad (SendMsgEvent peer msgs (Some pred) post) w0 =
     (None, spawn (PollSendWhen peer msgs pred post 0)
              (emit (Dispatched (SendMsgEvent peer msgs (Some pred) post)) w0))
   \<and> (pred k \<and> SendMessages ad (daemonState w) peer msgs = (Some err, d') \<longrightarrow>
        stepWaiter ad (PollSendWhen peer msgs pred post k) Fired w =
          (None, None, emit (SendMessagesCall peer msgs) (w\<lparr>daemonState := d'\<rparr>)))
   \<and> ((\<forall>j<k. \<not> pred j) \<and> pred k \<and> SendMessages ad (daemonState w) peer msgs = (Some err, d') \<longrightarrow>
        runWaiter ad (PollSendWhen peer msgs pred post 0) (replicate (Suc k) Fired @ later) w =
          (None, [], emit (SendMessagesCall peer msgs) (w\<lparr>daemonState := d'\<rparr>)))
   \<and> goroutines (emit (SendMessagesCall peer msgs) (w\<lparr>daemonState := d'\<rparr>)) = goroutines w
   \<and> logged (trace (emit (SendMessagesCall peer msgs) (w\<lparr>daemonState := d'\<rparr>))) = logged (trace w)"
proof (intro conjI impI)
  show "executeDaemonEvent ad (SendMsgEvent peer msgs (Some pred) post) w0 =
     (None, spawn (PollSendWhen peer msgs pred post 0)
              (emit (Dispatched (SendMsgEvent peer msgs (Some pred) post)) w0))"
    by (simp add: executeDaemonEvent_def)
next
  assume "pred k \<and> SendMessages ad (daemonState w) peer msgs = (Some err, d')"
  then show "stepWaiter ad (PollSendWhen peer msgs pred post k) Fired w =
          (None, None, emit (SendMessagesCall peer msgs) (w\<lparr>daemonState := d'\<rparr>))"
    by (simp add: sendAndCleanUp_def)
next
  assume h: "(\<forall>j<k. \<not> pred j) \<and> pred k \<and> SendMessages ad (daemonState w) peer msgs = (Some err, d')"
  then have "runWaiter ad (PollSendWhen peer msgs pred post 0) (replicate (Suc k) Fired @ later) w =
       (None, [], snd (sendAndCleanUp ad peer msgs post w))"
    using poll_until [of k pred 0 ad peer msgs post later w] by simp
  with h show "runWaiter ad (PollSendWhen peer msgs pred post 0) (replicate (Suc k) Fired @ later) w =
          (None, [], emit (SendMessagesCall peer msgs) (w\<lparr>daemonState := d'\<rparr>))"
    by (simp add: sendAndCleanUp_def)
next
  show "goroutines (emit (SendMessagesCall peer msgs) (w\<lparr>daemonState := d'\<rparr>)) = goroutines w"
    by (simp add: emit_def)
next
  show "logged (trace (emit (SendMessagesCall peer msgs) (w\<lparr>daemonState := d'\<rparr>))) = logged (trace w)"
    by (simp add: emit_def)
qed

theorem sendWhen_send_error_discarded_witness:
  "\<not> (\<lambda>n :: nat. 2 \<le> n) 0 \<and> \<not> (\<lambda>n :: nat. 2 \<le> n) 1 \<and> (\<lambda>n :: nat. 2 \<le> n) 2
   \<and> SendMessages downAdapters (daemonState (emptyWorld :: (dstate, devent, unit) world)) [2] [[3]] =
       (Some (ExternalError ''down''), ())
   \<and> stepWaiter downAdapters (PollSendWhen [2] [[3]] (\<lambda>n :: nat. 2 \<le> n) (Some E1) 2) Fired
        (emptyWorld :: (dstate, devent, unit) world) =
       (None, None, emptyWorld\<lparr>trace := [SendMessagesCall [2] [[3]]]\<rparr>)
   \<and> runWaiter downAdapters (PollSendWhen [2] [[3]] (\<lambda>n :: nat. 2 \<le> n) (Some E1) 0)
        (replicate (Suc 2) Fired @ [Fired, Fired]) (emptyWorld :: (dstate, devent, unit) world) =
       (None, [], emptyWorld\<lparr>trace := [SendMessagesCall [2] [[3]]]\<rparr>)"
proof -
  let ?w = "emptyWorld :: (dstate, devent, unit) world"
  let ?p = "\<lambda>n :: nat. 2 \<le> n"
  have a: "\<forall>j<2. \<not> ?p j" "?p 2" by simp_all
  have b: "SendMessages downAdapters (daemonState ?w) [2] [[3]] = (Some (ExternalError ''down''), ())"
    by (simp add: downAdapters_def)
  note th = sendWhen_send_error_discarded [where ad = downAdapters and peer = "[2]" and msgs = "[[3]]"
      and pred = ?p and post = "Some E1" and k = 2 and w = ?w and err = "ExternalError ''down''"
      and d' = "()" and later = "[Fired, Fired]"]
  from a b th have
    "stepWaiter downAdapters (PollSendWhen [2] [[3]] ?p (Some E1) 2) Fired ?w =
       (None, None, emit (SendMessagesCall [2] [[3]]) (?w\<lparr>daemonState := ()\<rparr>))"
    "runWaiter downAdapters (PollSendWhen [2] [[3]] ?p (Some E1) 0)
        (replicate (Suc 2) Fired @ [Fired, Fired]) ?w =
       (None, [], emit (SendMessagesCall [2] [[3]]) (?w\<lparr>daemonState := ()\<rparr>))"
    by blast+
  with a b show ?thesis by (simp add: emit_def emptyWorld_def)
qed

section \<open>The chain hash of a channel announcement\<close>

lemma firstOf_Nil [simp]: "firstOf f [] = None"
  by (simp add: firstOf_def List.map_filter_simps)

lemma firstOf_Cons [simp]:
  "firstOf f (x # xs) = (case f x of None \<Rightarrow> firstOf f xs | Some y \<Rightarrow> Some y)"
  by (simp add: firstOf_def List.map_filter_simps split: option.split)

lemma firstOf_append:
  "firstOf f (xs @ ys) = (case firstOf f xs of None \<Rightarrow> firstOf f ys | Some y \<Rightarrow> Some y)"
  by (induction xs) (simp_all split: option.split)

lemma recordProducers_chainHash:
  "firstOf chainHashVal (recordProducers genesis c) =
     (if ChainHash c = genesis then None else Some (ChainHash c))"
  by (simp add: recordProducers_def firstOf_append split: option.split)

lemma recordProducers_member:
  "ChainHashRecord h \<in> set (recordProducers genesis c) \<longleftrightarrow> ChainHash c \<noteq> genesis \<and> h = ChainHash c"
  by (auto simp: recordProducers_def split: option.splits)

text \<open>
  Claim C10, as it is stated, fails in one direction. The claim says that the decoder
  sets the chain hash to the genesis hash exactly when the stream has no record of type
  0. A stream whose record of type 0 carries the genesis hash itself is decoded to a
  message whose chain hash is the genesis hash, although the stream has a record of
  type 0.
\<close>

theorem explicit_genesis_record_keeps_genesis:
  "ExtractRecords toyCodec ([0, 32] @ mainNetGenesisHash) = Inr [ChainHashRecord mainNetGenesisHash]
   \<and> DecodeTLVRecords toyCodec mainNetGenesisHash ([0, 32] @ mainNetGenesisHash) zeroAnnouncement =
       Inr (zeroAnnouncement\<lparr>ChainHash := mainNetGenesisHash,
              ExtraOpaqueData := [0, 32] @ mainNetGenesisHash\<rparr>)
   \<and> \<not> (ChainHash (zeroAnnouncement\<lparr>ChainHash := mainNetGenesisHash,
              ExtraOpaqueData := [0, 32] @ mainNetGenesisHash\<rparr>) = mainNetGenesisHash
        \<longleftrightarrow> firstOf chainHashVal [ChainHashRecord mainNetGenesisHash] = None)"
  by (simp add: DecodeTLVRecords_def toyCodec_def toyRecord_def mainNetGenesisHash_def
      zeroAnnouncement_def)

text \<open>
  Claim C10, amended. The decoder sets the chain hash to the genesis hash when the stream
  has no record of type 0, and to the value of that record when it has one. The encoder
  hands a chain hash record to the TLV encoder exactly when the chain hash of the message
  differs from the genesis hash, and the record then carries that chain hash. So the
  chain hash survives the round trip: when the bytes \<open>DataToSign\<close> has produced are
  parsed back into the records that were encoded, \<open>DecodeTLVRecords\<close> yields a message
  with the chain hash of the message encoded.
\<close>

theorem chain_hash_default_roundtrip:
  "(DecodeTLVRecords codec genesis tlvRecords c0 = Inr c1
      \<and> ExtractRecords codec tlvRecords = Inr found \<and> firstOf chainHashVal found = None \<longrightarrow>
      ChainHash c1 = genesis)
   \<and> (DecodeTLVRecords codec genesis tlvRecords c0 = Inr c1
      \<and> ExtractRecords codec tlvRecords = Inr found \<and> firstOf chainHashVal found = Some h \<longrightarrow>
      ChainHash c1 = h)
   \<and> (ChainHashRecord h \<in> set (recordProducers genesis c) \<longleftrightarrow>
        ChainHash c \<noteq> genesis \<and> h = ChainHash c)
   \<and> firstOf chainHashVal (recordProducers genesis c) =
        (if ChainHash c = genesis then None else Some (ChainHash c))
   \<and> (DataToSign codec genesis c = Inr (data, c2)
      \<and> ExtractRecords codec data = Inr (recordProducers genesis c)
      \<and> DecodeTLVRecords codec genesis data c3 = Inr c4 \<longrightarrow>
      ChainHash c4 = ChainHash c)"
proof (intro conjI impI)
  assume "DecodeTLVRecords codec genesis tlvRecords c0 = Inr c1
      \<and> ExtractRecords codec tlvRecords = Inr found \<and> firstOf chainHashVal found = None"
  then show "ChainHash c1 = genesis" by (auto simp: DecodeTLVRecords_def)
next
  assume "DecodeTLVRecords codec genesis tlvRecords c0 = Inr c1
      \<and> ExtractRecords codec tlvRecords = Inr found \<and> firstOf chainHashVal found = Some h"
  then show "ChainHash c1 = h" by (auto simp: DecodeTLVRecords_def)
next
  show "ChainHashRecord h \<in> set (recordProducers genesis c) \<longleftrightarrow>
        ChainHash c \<noteq> genesis \<and> h = ChainHash c"
    by (rule recordProducers_member)
next
  show "firstOf chainHashVal (recordProducers genesis c) =
        (if ChainHash c = genesis then None else Some (ChainHash c))"
    by (rule recordProducers_chainHash)
next
  assume h: "DataToSign codec genesis c = Inr (data, c2)
      \<and> ExtractRecords codec data = Inr (recordProducers genesis c)
      \<and> DecodeTLVRecords codec genesis data c3 = Inr c4"
  then have "ChainHash c4 =
      (case firstOf chainHashVal (recordProducers genesis c) of None \<Rightarrow> genesis | Some x \<Rightarrow> x)"
    by (auto simp: DecodeTLVRecords_def)
  then show "ChainHash c4 = ChainHash c" by (simp add: recordProducers_chainHash)
qed

theorem chain_hash_default_roundtrip_witness:
  "DataToSign toyCodec mainNetGenesisHash testnetAnnouncement =
     Inr ([0, 2, 67, 73, 2, 1, 1, 4, 8, 0, 0, 0, 0, 0, 0, 0, 5, 6, 8, 0, 0, 0, 0, 0, 0, 3, 232,
           8, 2, 2, 7, 10, 2, 3, 9, 14, 2, 2, 8],
          testnetAnnouncement\<lparr>ExtraOpaqueData :=
            [0, 2, 67, 73, 2, 1, 1, 4, 8, 0, 0, 0, 0, 0, 0, 0, 5, 6, 8, 0, 0, 0, 0, 0, 0, 3, 232,
             8, 2, 2, 7, 10, 2, 3, 9, 14, 2, 2, 8]\<rparr>)
   \<and> DecodeTLVRecords toyCodec mainNetGenesisHash
        [0, 2, 67, 73, 2, 1, 1, 4, 8, 0, 0, 0, 0, 0, 0, 0, 5, 6, 8, 0, 0, 0, 0, 0, 0, 3, 232,
         8, 2, 2, 7, 10, 2, 3, 9, 14, 2, 2, 8] zeroAnnouncement =
     Inr (testnetAnnouncement\<lparr>ExtraOpaqueData :=
            [0, 2, 67, 73, 2, 1, 1, 4, 8, 0, 0, 0, 0, 0, 0, 0, 5, 6, 8, 0, 0, 0, 0, 0, 0, 3, 232,
             8, 2, 2, 7, 10, 2, 3, 9, 14, 2, 2, 8]\<rparr>)
   \<and> ChainHash (testnetAnnouncement\<lparr>ExtraOpaqueData :=
            [0, 2, 67, 73, 2, 1, 1, 4, 8, 0, 0, 0, 0, 0, 0, 0, 5, 6, 8, 0, 0, 0, 0, 0, 0, 3, 232,
             8, 2, 2, 7, 10, 2, 3, 9, 14, 2, 2, 8]\<rparr>) = ChainHash testnetAnnouncement
   \<and> ExtractRecords toyCodec [2, 1, 1, 6, 8, 0, 0, 0, 0, 0, 0, 3, 232] =
       Inr [FeaturesRecord [1], CapacityRecord 1000]
   \<and> firstOf chainHashVal [FeaturesRecord [1], CapacityRecord 1000] = None
   \<and> DecodeTLVRecords toyCodec mainNetGenesisHash [2, 1, 1, 6, 8, 0, 0, 0, 0, 0, 0, 3, 232]
        zeroAnnouncement =
       Inr (zeroAnnouncement\<lparr>ChainHash := mainNetGenesisHash, Features := [1], Capacity := 1000,
              ExtraOpaqueData := [2, 1, 1, 6, 8, 0, 0, 0, 0, 0, 0, 3, 232]\<rparr>)
   \<and> ChainHash (zeroAnnouncement\<lparr>ChainHash := mainNetGenesisHash, Features := [1],
              Capacity := 1000,
              ExtraOpaqueData := [2, 1, 1, 6, 8, 0, 0, 0, 0, 0, 0, 3, 232]\<rparr>) = mainNetGenesisHash
   \<and> ExtractRecords toyCodec [0, 2, 9, 9, 6, 8, 0, 0, 0, 0, 0, 0, 3, 232] =
       Inr [ChainHashRecord [9, 9], CapacityRecord 1000]
   \<and> firstOf chainHashVal [ChainHashRecord [9, 9], CapacityRecord 1000] = Some [9, 9]
   \<and> DecodeTLVRecords toyCodec mainNetGenesisHash [0, 2, 9, 9, 6, 8, 0, 0, 0, 0, 0, 0, 3, 232]
        zeroAnnouncement =
       Inr (zeroAnnouncement\<lparr>ChainHash := [9, 9], Capacity := 1000,
              ExtraOpaqueData := [0, 2, 9, 9, 6, 8, 0, 0, 0, 0, 0, 0, 3, 232]\<rparr>)
   \<and> ChainHash (zeroAnnouncement\<lparr>ChainHash := [9, 9], Capacity := 1000,
              ExtraOpaqueData := [0, 2, 9, 9, 6, 8, 0, 0, 0, 0, 0, 0, 3, 232]\<rparr>) = [9, 9]"
proof -
  let ?d = "[0, 2, 67, 73, 2, 1, 1, 4, 8, 0, 0, 0, 0, 0, 0, 0, 5, 6, 8, 0, 0, 0, 0, 0, 0, 3, 232,
             8, 2, 2, 7, 10, 2, 3, 9, 14, 2, 2, 8] :: bytes"
  let ?c = "testnetAnnouncement\<lparr>ExtraOpaqueData := ?d\<rparr>"
  let ?e = "[2, 1, 1, 6, 8, 0, 0, 0, 0, 0, 0, 3, 232] :: bytes"
  let ?ce = "zeroAnnouncement\<lparr>ChainHash := mainNetGenesisHash, Features := [1], Capacity := 1000,
              ExtraOpaqueData := ?e\<rparr>"
  let ?f = "[0, 2, 9, 9, 6, 8, 0, 0, 0, 0, 0, 0, 3, 232] :: bytes"
  let ?cf = "zeroAnnouncement\<lparr>ChainHash := [9, 9], Capacity := 1000, ExtraOpaqueData := ?f\<rparr>"
  have enc: "DataToSign toyCodec mainNetGenesisHash testnetAnnouncement = Inr (?d, ?c)"
    by (simp add: DataToSign_def recordProducers_def toyCodec_def toyEncode_def be64_def
        testnetAnnouncement_def mainNetGenesisHash_def)
  have ext: "ExtractRecords toyCodec ?d = Inr (recordProducers mainNetGenesisHash testnetAnnouncement)"
    by (simp add: recordProducers_def toyCodec_def toyRecord_def unbe64_def
        testnetAnnouncement_def mainNetGenesisHash_def)
  have dec: "DecodeTLVRecords toyCodec mainNetGenesisHash ?d zeroAnnouncement = Inr ?c"
    by (simp add: DecodeTLVRecords_def toyCodec_def toyRecord_def unbe64_def
        testnetAnnouncement_def zeroAnnouncement_def)
  have exe: "ExtractRecords toyCodec ?e = Inr [FeaturesRecord [1], CapacityRecord 1000]"
    by (simp add: toyCodec_def toyRecord_def unbe64_def)
  have nohash: "firstOf chainHashVal [FeaturesRecord [1], CapacityRecord 1000] = None"
    by simp
  have dece: "DecodeTLVRecords toyCodec mainNetGenesisHash ?e zeroAnnouncement = Inr ?ce"
    by (simp add: DecodeTLVRecords_def toyCodec_def toyRecord_def unbe64_def zeroAnnouncement_def)
  have exf: "ExtractRecords toyCodec ?f = Inr [ChainHashRecord [9, 9], CapacityRecord 1000]"
    by (simp add: toyCodec_def toyRecord_def unbe64_def)
  have hash: "firstOf chainHashVal [ChainHashRecord [9, 9], CapacityRecord 1000] = Some [9, 9]"
    by simp
  have decf: "DecodeTLVRecords toyCodec mainNetGenesisHash ?f zeroAnnouncement = Inr ?cf"
    by (simp add: DecodeTLVRecords_def toyCodec_def toyRecord_def unbe64_def zeroAnnouncement_def)
  from enc ext dec chain_hash_default_roundtrip [where codec = toyCodec
      and genesis = mainNetGenesisHash and c = testnetAnnouncement and data = ?d and ?c2.0 = ?c
      and ?c3.0 = zeroAnnouncement and ?c4.0 = ?c]
  have r1: "ChainHash ?c = ChainHash testnetAnnouncement" by blast
  from exe nohash dece chain_hash_default_roundtrip [where codec = toyCodec
      and genesis = mainNetGenesisHash and tlvRecords = ?e and ?c0.0 = zeroAnnouncement
      and ?c1.0 = ?ce and found = "[FeaturesRecord [1], CapacityRecord 1000]"]
  have r2: "ChainHash ?ce = mainNetGenesisHash" by blast
  from exf hash decf chain_hash_default_roundtrip [where codec = toyCodec
      and genesis = mainNetGenesisHash and tlvRecords = ?f and ?c0.0 = zeroAnnouncement
      and ?c1.0 = ?cf and found = "[ChainHashRecord [9, 9], CapacityRecord 1000]" and h = "[9, 9]"]
  have r3: "ChainHash ?cf = [9, 9]" by blast
  from enc dec r1 exe nohash dece r2 exf hash decf r3 show ?thesis by blast
qed

end
